theory Spec2Isabelle
  imports Complex_Main "HOL-Library.Word"
begin

unbundle bit_operations_syntax

section \<open>Python values and exceptions\<close>

text \<open>
  The values that cross the bridge are the JSON-serialisable Python values: \<open>None\<close>,
  booleans, integers, floats, strings, lists and dictionaries with string keys. A
  dictionary is an association list in insertion order; a lookup takes the first entry of
  a key. Strings are lists of 8-bit characters.
\<close>

datatype json =
    JNull
  | JBool bool
  | JInt int
  | JFloat real
  | JStr string
  | JList "json list"
  | JDict "(string \<times> json) list"

text \<open>
  A raised exception is its class name together with the text \<open>str(e)\<close>. Every exception
  of the model is an instance of Python's \<open>Exception\<close>, the class that the
  \<open>except Exception\<close> clauses of the source catch.
\<close>

datatype py_exn = Py_exn (exn_class: string) (exn_str: string)

definition repr_str :: "string \<Rightarrow> string" where
  \<comment> \<open>\<open>repr\<close> of a string without quotes, backslashes or control characters\<close>
  "repr_str k = [CHR 0x27] @ k @ [CHR 0x27]"

definition KeyError :: "string \<Rightarrow> py_exn" where
  "KeyError k = Py_exn ''KeyError'' (repr_str k)"

section \<open>The task bridge of bridge_server.py\<close>

type_synonym task_id = string

text \<open>
  A handler is called with a payload on the host thread; it reads and changes the host
  application (the state \<open>'h\<close>) and either returns a value or raises.
\<close>

type_synonym 'h handler = "json \<Rightarrow> 'h \<Rightarrow> (py_exn + json) \<times> 'h"

text \<open>An entry of \<open>_task_results\<close>: \<open>{"event": ev, "result": None}\<close>.\<close>

record slot =
  event :: bool
  result :: json

text \<open>
  The module globals: \<open>_task_queue\<close>, \<open>_task_results\<close>, the custom events fired and not
  yet delivered, whether \<open>ui\<close> is set, and the message boxes shown. \<open>host\<close> is the host
  application that the handlers work on and \<open>executed\<close> records the task ids in the order
  in which their handlers were called.
\<close>

record 'h bridge =
  task_queue :: "(task_id \<times> 'h handler \<times> json) list"
  task_results :: "task_id \<rightharpoonup> slot"
  events_fired :: nat
  ui :: bool
  message_boxes :: "string list"
  host :: 'h
  executed :: "task_id list"

definition ok_result :: "json \<Rightarrow> json" where
  "ok_result out = JDict [(''ok'', JBool True), (''result'', out)]"

definition error_result :: "string \<Rightarrow> string \<Rightarrow> json" where
  "error_result msg trace =
     JDict [(''ok'', JBool False), (''error'', JStr msg), (''trace'', JStr trace)]"

definition TIMEOUT_RESULT :: json where
  "TIMEOUT_RESULT =
     JDict [(''ok'', JBool False), (''error'', JStr ''Timeout waiting for Fusion execution.'')]"

text \<open>\<open>_task_results[task_id]["result"] = r\<close>: a missing key raises \<open>KeyError\<close>.\<close>

definition set_result :: "task_id \<Rightarrow> json \<Rightarrow> 'h bridge \<Rightarrow> py_exn + 'h bridge" where
  "set_result tid r s =
     (case task_results s tid of
        None \<Rightarrow> Inl (KeyError tid)
      | Some sl \<Rightarrow> Inr (s\<lparr>task_results := (task_results s)(tid \<mapsto> sl\<lparr>result := r\<rparr>)\<rparr>))"

text \<open>\<open>_task_results[task_id]["event"].set()\<close>.\<close>

definition set_event :: "task_id \<Rightarrow> 'h bridge \<Rightarrow> py_exn + 'h bridge" where
  "set_event tid s =
     (case task_results s tid of
        None \<Rightarrow> Inl (KeyError tid)
      | Some sl \<Rightarrow> Inr (s\<lparr>task_results := (task_results s)(tid \<mapsto> sl\<lparr>event := True\<rparr>)\<rparr>))"

text \<open>
  The \<open>except Exception as e\<close> clause of the inner \<open>try\<close>: it stores the failure; when that
  store raises, the new exception is pending while the \<open>finally\<close> clause runs.
  \<open>format_exc\<close> is \<open>traceback.format_exc\<close>, a parameter.
\<close>

definition except_clause ::
  "(py_exn \<Rightarrow> string) \<Rightarrow> task_id \<Rightarrow> py_exn \<Rightarrow> 'h bridge \<Rightarrow> py_exn option \<times> 'h bridge" where
  "except_clause format_exc tid e s =
     (case set_result tid (error_result (exn_str e) (format_exc e)) s of
        Inr s' \<Rightarrow> (None, s')
      | Inl e' \<Rightarrow> (Some e', s))"

text \<open>
  The \<open>try\<close> body and its \<open>except\<close> clause for one task taken from the queue: the handler
  call, the store of its result, and the handling of what either of them raises.
\<close>

definition try_except ::
  "(py_exn \<Rightarrow> string) \<Rightarrow> task_id \<times> 'h handler \<times> json \<Rightarrow> 'h bridge \<Rightarrow> py_exn option \<times> 'h bridge" where
  "try_except format_exc t s =
     (case t of (tid, fn, payload) \<Rightarrow>
        (case fn payload (host s) of
           (Inr out, h) \<Rightarrow>
             (let s1 = s\<lparr>host := h, executed := executed s @ [tid]\<rparr>
              in case set_result tid (ok_result out) s1 of
                   Inr s2 \<Rightarrow> (None, s2)
                 | Inl e \<Rightarrow> except_clause format_exc tid e s1)
         | (Inl e, h) \<Rightarrow>
             except_clause format_exc tid e (s\<lparr>host := h, executed := executed s @ [tid]\<rparr>)))"

text \<open>
  The \<open>finally\<close> clause: it sets the event; an exception raised here replaces the pending
  one.
\<close>

definition finally_clause ::
  "task_id \<Rightarrow> py_exn option \<times> 'h bridge \<Rightarrow> py_exn option \<times> 'h bridge" where
  "finally_clause tid ps =
     (case set_event tid (snd ps) of
        Inr s' \<Rightarrow> (fst ps, s')
      | Inl e \<Rightarrow> (Some e, snd ps))"

definition exec_task ::
  "(py_exn \<Rightarrow> string) \<Rightarrow> task_id \<times> 'h handler \<times> json \<Rightarrow> 'h bridge \<Rightarrow> py_exn option \<times> 'h bridge" where
  "exec_task format_exc t s = finally_clause (fst t) (try_except format_exc t s)"

text \<open>
  The loop \<open>while not _task_queue.empty()\<close> of \<open>notify\<close>: it leaves at the first exception
  that escapes the inner \<open>try\<close>.
\<close>

function drain :: "(py_exn \<Rightarrow> string) \<Rightarrow> 'h bridge \<Rightarrow> py_exn option \<times> 'h bridge" where
  "drain format_exc s =
     (case task_queue s of
        [] \<Rightarrow> (None, s)
      | t # q \<Rightarrow>
          (case exec_task format_exc t (s\<lparr>task_queue := q\<rparr>) of
             (Some e, s') \<Rightarrow> (Some e, s')
           | (None, s') \<Rightarrow> drain format_exc s'))"
  by pat_completeness auto
termination
  by (relation "measure (\<lambda>(f, s). length (task_queue s))")
     (auto simp: exec_task_def finally_clause_def try_except_def except_clause_def
                 set_result_def set_event_def Let_def
           split: sum.splits option.splits prod.splits)

declare drain.simps [simp del]

text \<open>
  \<open>_ExecEventHandler.notify\<close>: the outer \<open>except Exception\<close> shows a message box when
  \<open>ui\<close> is set and swallows the exception.
\<close>

definition notify :: "(py_exn \<Rightarrow> string) \<Rightarrow> 'h bridge \<Rightarrow> 'h bridge" where
  "notify format_exc s =
     (case drain format_exc s of
        (None, s') \<Rightarrow> s'
      | (Some e, s') \<Rightarrow>
          (if ui s'
           then s'\<lparr>message_boxes := message_boxes s' @
                     [''FusionBridge custom event error:'' @ [CHR 0x0A] @ format_exc e]\<rparr>
           else s'))"

text \<open>
  \<open>ev.wait(timeout)\<close> against a schedule of what the other threads do to the bridge while
  the caller is blocked: each entry is the time of an action, counted from the start of
  the wait, in increasing order. The wait ends when the event is set or when the timeout
  has passed; it returns the flag, the time waited and the bridge at that moment.
\<close>

definition is_set :: "task_id \<Rightarrow> 'h bridge \<Rightarrow> bool" where
  "is_set tid s = (case task_results s tid of None \<Rightarrow> False | Some sl \<Rightarrow> event sl)"

fun ev_wait ::
  "real \<Rightarrow> task_id \<Rightarrow> real \<Rightarrow> (real \<times> ('h bridge \<Rightarrow> 'h bridge)) list \<Rightarrow> 'h bridge
     \<Rightarrow> bool \<times> real \<times> 'h bridge" where
  "ev_wait timeout tid now [] s =
     (if is_set tid s then (True, now, s) else (False, timeout, s))"
| "ev_wait timeout tid now ((t, act) # sched) s =
     (if is_set tid s then (True, now, s)
      else if t \<le> timeout then ev_wait timeout tid (max now t) sched (act s)
      else (False, timeout, s))"

text \<open>
  \<open>uuid4\<close> of the Python library (uuid.py): \<open>UUID(bytes=os.urandom(16), version=4)\<close>. The
  argument is the integer \<open>int.from_bytes\<close> of the 16 random bytes; the constructor clears
  and sets the two variant bits and the four version bits.
\<close>

definition uuid4 :: "128 word \<Rightarrow> 128 word" where
  "uuid4 urandom =
     (let i = urandom AND NOT (push_bit 48 0xc000);
          i = i OR push_bit 48 0x8000;
          i = i AND NOT (push_bit 64 0xf000)
      in i OR push_bit 76 4)"

text \<open>\<open>'%032x' % n\<close> for \<open>0 \<le> n < 2 ^ 128\<close>: the 32 hexadecimal digits of \<open>n\<close>.\<close>

definition hex_digit :: "nat \<Rightarrow> char" where
  "hex_digit d = ''0123456789abcdef'' ! d"

fun hex_fixed :: "nat \<Rightarrow> nat \<Rightarrow> string" where
  "hex_fixed 0 n = []"
| "hex_fixed (Suc k) n = hex_fixed k (n div 16) @ [hex_digit (n mod 16)]"

text \<open>\<open>UUID.__str__\<close>.\<close>

definition UUID_str :: "128 word \<Rightarrow> string" where
  "UUID_str u =
     (let hex = hex_fixed 32 (unat u)
      in take 8 hex @ ''-'' @ take 4 (drop 8 hex) @ ''-'' @ take 4 (drop 12 hex) @ ''-''
           @ take 4 (drop 16 hex) @ ''-'' @ drop 20 hex)"

text \<open>\<open>task_id = str(uuid4())\<close>, the first statement of \<open>_run_on_fusion_thread\<close>.\<close>

definition new_task_id :: "128 word \<Rightarrow> task_id" where
  "new_task_id urandom = UUID_str (uuid4 urandom)"

text \<open>
  \<open>_run_on_fusion_thread\<close>, in two halves around the wait. \<open>submit_begin\<close> is the part up to
  \<open>app.fireCustomEvent\<close>, for the task id that \<open>str(uuid4())\<close> has returned. \<open>submit_end\<close> is the
  part after the wait.
\<close>

definition submit_begin :: "task_id \<Rightarrow> 'h handler \<Rightarrow> json \<Rightarrow> 'h bridge \<Rightarrow> 'h bridge" where
  "submit_begin task_id fn payload s =
     (let s1 = s\<lparr>task_results := (task_results s)(task_id \<mapsto> \<lparr>event = False, result = JNull\<rparr>)\<rparr>;
          s2 = s1\<lparr>task_queue := task_queue s1 @ [(task_id, fn, payload)]\<rparr>
      in s2\<lparr>events_fired := Suc (events_fired s2)\<rparr>)"

definition submit_end :: "task_id \<Rightarrow> 'h bridge \<Rightarrow> (py_exn + json) \<times> 'h bridge" where
  "submit_end task_id s =
     (case task_results s task_id of
        None \<Rightarrow> (Inl (KeyError task_id), s)
      | Some sl \<Rightarrow>
          (let res = result sl;
               s' = s\<lparr>task_results := (task_results s)(task_id := None)\<rparr>
           in if res = JNull then (Inr TIMEOUT_RESULT, s') else (Inr res, s')))"

definition WAIT_TIMEOUT :: real where
  "WAIT_TIMEOUT = 30"

definition run_on_fusion_thread ::
  "task_id \<Rightarrow> 'h handler \<Rightarrow> json \<Rightarrow> (real \<times> ('h bridge \<Rightarrow> 'h bridge)) list \<Rightarrow> 'h bridge
     \<Rightarrow> (py_exn + json) \<times> real \<times> 'h bridge" where
  "run_on_fusion_thread task_id fn payload sched s =
     (case ev_wait WAIT_TIMEOUT task_id 0 sched (submit_begin task_id fn payload s) of
        (flag, waited, s') \<Rightarrow>
          (case submit_end task_id s' of (r, s'') \<Rightarrow> (r, waited, s'')))"

section \<open>Library functions taken as parameters\<close>

text \<open>
  The functions of the Python library whose results the program uses as they are:
  \<open>json.loads\<close> (\<open>Inl\<close> is the exception it raises), \<open>json.dumps\<close>, \<open>json.dumps\<close> with
  \<open>indent=2\<close>, the formatting \<open>str\<close> of a value that is not a string, and
  \<open>traceback.format_exc\<close>.
\<close>

record pylib =
  json_loads :: "string \<Rightarrow> py_exn + json"
  json_dumps :: "json \<Rightarrow> string"
  json_dumps_indent :: "json \<Rightarrow> string"
  str_of :: "json \<Rightarrow> string"
  format_exc :: "py_exn \<Rightarrow> string"

definition py_str :: "pylib \<Rightarrow> json \<Rightarrow> string" where
  "py_str L j = (case j of JStr s \<Rightarrow> s | _ \<Rightarrow> str_of L j)"

text \<open>Python's truth value of an object, as \<open>not x\<close> and \<open>x or y\<close> test it.\<close>

fun truthy :: "json \<Rightarrow> bool" where
  "truthy JNull = False"
| "truthy (JBool b) = b"
| "truthy (JInt i) = (i \<noteq> 0)"
| "truthy (JFloat r) = (r \<noteq> 0)"
| "truthy (JStr s) = (s \<noteq> [])"
| "truthy (JList xs) = (xs \<noteq> [])"
| "truthy (JDict kvs) = (kvs \<noteq> [])"

fun type_name :: "json \<Rightarrow> string" where
  "type_name JNull = ''NoneType''"
| "type_name (JBool b) = ''bool''"
| "type_name (JInt i) = ''int''"
| "type_name (JFloat r) = ''float''"
| "type_name (JStr s) = ''str''"
| "type_name (JList xs) = ''list''"
| "type_name (JDict kvs) = ''dict''"

text \<open>\<open>d.get(k, default)\<close>: only a dictionary has the method.\<close>

definition dict_get :: "json \<Rightarrow> string \<Rightarrow> json \<Rightarrow> py_exn + json" where
  "dict_get d k dflt =
     (case d of
        JDict kvs \<Rightarrow> Inr (case map_of kvs k of None \<Rightarrow> dflt | Some v \<Rightarrow> v)
      | _ \<Rightarrow> Inl (Py_exn ''AttributeError''
                  (repr_str (type_name d) @ '' object has no attribute '' @ repr_str ''get'')))"

text \<open>
  The lookup of a value as a key of a dictionary with string keys, behind both
  \<open>x not in d\<close> and \<open>d[x]\<close>: a list or a dictionary is unhashable and raises \<open>TypeError\<close>,
  a string is looked up, any other value is not a key.
\<close>

definition lookup_key :: "json \<Rightarrow> (string \<times> 'a) list \<Rightarrow> py_exn + 'a option" where
  "lookup_key x d =
     (case x of
        JList xs \<Rightarrow> Inl (Py_exn ''TypeError'' (''unhashable type: '' @ repr_str ''list''))
      | JDict kvs \<Rightarrow> Inl (Py_exn ''TypeError'' (''unhashable type: '' @ repr_str ''dict''))
      | JStr k \<Rightarrow> Inr (map_of d k)
      | _ \<Rightarrow> Inr None)"

section \<open>Python strings\<close>

text \<open>
  \<open>str.strip()\<close> removes the leading and trailing whitespace characters; among the code
  points below 256 these are the following.
\<close>

definition is_space :: "char \<Rightarrow> bool" where
  "is_space c =
     (c \<in> set [CHR 0x09, CHR 0x0A, CHR 0x0B, CHR 0x0C, CHR 0x0D, CHR 0x1C, CHR 0x1D,
               CHR 0x1E, CHR 0x1F, CHR 0x20, CHR 0x85, CHR 0xA0])"

definition strip :: "string \<Rightarrow> string" where
  "strip text = rev (dropWhile is_space (rev (dropWhile is_space text)))"

text \<open>\<open>str.find\<close> and \<open>str.rfind\<close> of one character: the index, or \<open>-1\<close>.\<close>

fun find_from :: "char \<Rightarrow> string \<Rightarrow> int \<Rightarrow> int" where
  "find_from c [] i = - 1"
| "find_from c (x # xs) i = (if x = c then i else find_from c xs (i + 1))"

definition find :: "char \<Rightarrow> string \<Rightarrow> int" where
  "find c text = find_from c text 0"

fun rfind_from :: "char \<Rightarrow> string \<Rightarrow> int \<Rightarrow> int \<Rightarrow> int" where
  "rfind_from c [] i found = found"
| "rfind_from c (x # xs) i found = rfind_from c xs (i + 1) (if x = c then i else found)"

definition rfind :: "char \<Rightarrow> string \<Rightarrow> int" where
  "rfind c text = rfind_from c text 0 (- 1)"

text \<open>The slice \<open>text[i:j]\<close> for indices that are not negative.\<close>

definition slice :: "string \<Rightarrow> int \<Rightarrow> int \<Rightarrow> string" where
  "slice text i j = take (nat (j - i)) (drop (nat i) text)"

definition startswith :: "string \<Rightarrow> string \<Rightarrow> bool" where
  "startswith text p = (take (length p) text = p)"

section \<open>The request listener of bridge_server.py\<close>

definition AUTH_TOKEN :: string where
  "AUTH_TOKEN = ''avez_fusion_2026_!9xQ3p''"

text \<open>
  A request as the handler class reads it: the method, the path, the value of
  \<open>headers.get("X-Token")\<close>, the outcome of \<open>int(headers.get("Content-Length", "0"))\<close>, and
  the outcome of \<open>rfile.read(length).decode("utf-8")\<close> for each length.
\<close>

record request =
  command :: string
  path :: string
  x_token :: "string option"
  content_length :: "py_exn + int"
  rfile :: "int \<Rightarrow> py_exn + string"

text \<open>
  A response is either written by \<open>_json_response\<close> (a status and a JSON object) or is an
  error page of the base class (a status).
\<close>

datatype response = Json_response nat json | Send_error nat

definition auth_ok :: "request \<Rightarrow> bool" where
  "auth_ok req = (x_token req = Some AUTH_TOKEN)"

definition UNAUTHORIZED :: json where
  "UNAUTHORIZED = JDict [(''ok'', JBool False), (''error'', JStr ''unauthorized'')]"

definition NOT_FOUND :: json where
  "NOT_FOUND = JDict [(''ok'', JBool False), (''error'', JStr ''not found'')]"

definition INVALID_JSON :: json where
  "INVALID_JSON = JDict [(''ok'', JBool False), (''error'', JStr ''invalid json'')]"

definition PONG :: json where
  "PONG = JDict [(''ok'', JBool True), (''result'', JDict [(''message'', JStr ''pong'')])]"

text \<open>The keys of \<open>_TOOL_MAP\<close>, in the order of the source.\<close>

definition TOOL_MAP_keys :: "string list" where
  "TOOL_MAP_keys =
     [''ping'', ''get_state'', ''list_bodies'', ''get_last_body'',
      ''create_sketch_on_plane'', ''create_sketch_rect_xy'', ''create_sketch_circle_xy'',
      ''create_sketch_two_circles_xy'', ''create_sketch_on_last_body_top'',
      ''sketch_center_rectangle'', ''sketch_two_circles_current'', ''sketch_line'',
      ''extrude_last_profile'', ''extrude_profile'', ''revolve_profile'',
      ''hole_on_last_body_top_face'', ''hole_bolt_circle_one'',
      ''circular_pattern_last_feature'', ''countersink_hole_on_last_body_top_face'',
      ''delete_all_bodies'', ''combine_all_bodies'', ''circular_pattern_last_body'',
      ''component_from_last_body'', ''rigid_joint_last_two_components'',
      ''create_spur_gear_involute'', ''create_rack_gear'', ''create_helical_gear'',
      ''create_internal_gear'', ''create_bevel_gear'']"

text \<open>
  \<open>_TOOL_MAP\<close>: the handler functions work on the host application through its API, so
  the function bound to each key is a parameter, \<open>impl\<close>.
\<close>

definition TOOL_MAP :: "(string \<Rightarrow> 'h handler) \<Rightarrow> (string \<times> 'h handler) list" where
  "TOOL_MAP impl = map (\<lambda>k. (k, impl k)) TOOL_MAP_keys"

definition unknown_tool :: "pylib \<Rightarrow> json \<Rightarrow> json" where
  "unknown_tool L tool =
     JDict [(''ok'', JBool False),
            (''error'', JStr (''Unknown tool '' @ repr_str (py_str L tool) @ ''.'')),
            (''available'', JList (map JStr TOOL_MAP_keys))]"

text \<open>
  \<open>_dispatch_tool\<close>. The task id and the schedule of the other threads are those of the
  call of \<open>_run_on_fusion_thread\<close> that it may make.
\<close>

definition dispatch_tool ::
  "pylib \<Rightarrow> (string \<Rightarrow> 'h handler) \<Rightarrow> task_id \<Rightarrow> (real \<times> ('h bridge \<Rightarrow> 'h bridge)) list
     \<Rightarrow> json \<Rightarrow> 'h bridge \<Rightarrow> (py_exn + json) \<times> 'h bridge" where
  "dispatch_tool L impl task_id sched payload s =
     (case dict_get payload ''tool'' JNull of
        Inl e \<Rightarrow> (Inl e, s)
      | Inr tool \<Rightarrow>
          (case dict_get payload ''args'' (JDict []) of
             Inl e \<Rightarrow> (Inl e, s)
           | Inr a \<Rightarrow>
               (let args = (if truthy a then a else JDict [])
                in case lookup_key tool (TOOL_MAP impl) of
                     Inl e \<Rightarrow> (Inl e, s)
                   | Inr None \<Rightarrow> (Inr (unknown_tool L tool), s)
                   | Inr (Some fn) \<Rightarrow>
                       (case run_on_fusion_thread task_id fn args sched s of
                          (r, waited, s') \<Rightarrow> (r, s')))))"


text \<open>\<open>_Handler.do_POST\<close>.\<close>

definition do_POST ::
  "pylib \<Rightarrow> (string \<Rightarrow> 'h handler) \<Rightarrow> task_id \<Rightarrow> (real \<times> ('h bridge \<Rightarrow> 'h bridge)) list
     \<Rightarrow> request \<Rightarrow> 'h bridge \<Rightarrow> (py_exn + response) \<times> 'h bridge" where
  "do_POST L impl task_id sched req s =
     (if \<not> auth_ok req then (Inr (Json_response 401 UNAUTHORIZED), s)
      else if path req \<noteq> ''/tool'' then (Inr (Json_response 404 NOT_FOUND), s)
      else
        (case content_length req of
           Inl e \<Rightarrow> (Inl e, s)
         | Inr len \<Rightarrow>
             (case (if len > 0 then rfile req len else Inr ''{}'') of
                Inl e \<Rightarrow> (Inl e, s)
              | Inr raw \<Rightarrow>
                  (case json_loads L raw of
                     Inl e \<Rightarrow> (Inr (Json_response 400 INVALID_JSON), s)
                   | Inr payload \<Rightarrow>
                       (case dispatch_tool L impl task_id sched payload s of
                          (Inl e, s') \<Rightarrow> (Inl e, s')
                        | (Inr res, s') \<Rightarrow> (Inr (Json_response 200 res), s'))))))"

text \<open>
  The base class \<open>BaseHTTPRequestHandler\<close> (http/server.py of the Python library), from
  which \<open>_Handler\<close> inherits \<open>handle_one_request\<close> and \<open>parse_request\<close>. What they read from
  the connection: the request line as \<open>rfile.readline(65537)\<close> returns it, decoded as
  ISO-8859-1; the exception that \<open>http.client.parse_headers\<close> raises, if it raises one; and
  what the handler then reads from the headers and the body, as in \<open>request\<close>.
\<close>

datatype header_fault = LineTooLong | HTTPException

record connection =
  raw_requestline :: string
  headers_fault :: "header_fault option"
  header_x_token :: "string option"
  header_content_length :: "py_exn + int"
  body :: "int \<Rightarrow> py_exn + string"


text \<open>
  \<open>str.split()\<close>: the maximal runs of characters that are not whitespace. \<open>cur\<close> is the run
  read so far.
\<close>

fun split_from :: "string \<Rightarrow> string \<Rightarrow> string list" where
  "split_from cur [] = (if cur = [] then [] else [cur])"
| "split_from cur (c # cs) =
     (if is_space c then (if cur = [] then split_from [] cs else cur # split_from [] cs)
      else split_from (cur @ [c]) cs)"

definition split :: "string \<Rightarrow> string list" where
  "split text = split_from [] text"











section \<open>The agent loop of chat_cli.py\<close>

text \<open>\<open>_parse_json_only\<close>.\<close>

definition parse_json_only :: "pylib \<Rightarrow> string \<Rightarrow> py_exn + json" where
  "parse_json_only L text0 =
     (let text = strip text0;
          text = (if \<not> startswith text ''{'' then
                    (let i = find CHR ''{'' text; j = rfind CHR ''}'' text
                     in if i \<noteq> - 1 \<and> j \<noteq> - 1 \<and> j > i then slice text i (j + 1) else text)
                  else text)
      in json_loads L text)"

text \<open>
  \<open>TOOL_ROUTER\<close>: the public tool name, the verb and the path or the name of the tool on
  the bridge.
\<close>

definition TOOL_ROUTER :: "(string \<times> string \<times> string) list" where
  "TOOL_ROUTER =
     [(''fusion_ping'', ''GET'', ''/ping''),
      (''fusion_get_state'', ''GET'', ''/state''),
      (''fusion_create_sketch_on_plane'', ''POST'', ''create_sketch_on_plane''),
      (''fusion_create_sketch_rect_xy'', ''POST'', ''create_sketch_rect_xy''),
      (''fusion_create_sketch_circle_xy'', ''POST'', ''create_sketch_circle_xy''),
      (''fusion_create_sketch_two_circles_xy'', ''POST'', ''create_sketch_two_circles_xy''),
      (''fusion_create_sketch_on_last_body_top'', ''POST'', ''create_sketch_on_last_body_top''),
      (''fusion_sketch_center_rectangle'', ''POST'', ''sketch_center_rectangle''),
      (''fusion_sketch_two_circles_current'', ''POST'', ''sketch_two_circles_current''),
      (''fusion_sketch_line'', ''POST'', ''sketch_line''),
      (''fusion_extrude_last_profile'', ''POST'', ''extrude_last_profile''),
      (''fusion_extrude_profile'', ''POST'', ''extrude_profile''),
      (''fusion_revolve_profile'', ''POST'', ''revolve_profile''),
      (''fusion_hole_on_last_body_top_face'', ''POST'', ''hole_on_last_body_top_face''),
      (''fusion_hole_bolt_circle_one'', ''POST'', ''hole_bolt_circle_one''),
      (''fusion_circular_pattern_last_feature'', ''POST'', ''circular_pattern_last_feature''),
      (''fusion_countersink_hole_on_last_body_top_face'', ''POST'',
         ''countersink_hole_on_last_body_top_face''),
      (''fusion_list_bodies'', ''POST'', ''list_bodies''),
      (''fusion_get_last_body'', ''POST'', ''get_last_body''),
      (''fusion_delete_all_bodies'', ''POST'', ''delete_all_bodies''),
      (''fusion_combine_all_bodies'', ''POST'', ''combine_all_bodies''),
      (''fusion_circular_pattern_last_body'', ''POST'', ''circular_pattern_last_body''),
      (''fusion_component_from_last_body'', ''POST'', ''component_from_last_body''),
      (''fusion_rigid_joint_last_two_components'', ''POST'', ''rigid_joint_last_two_components''),
      (''fusion_create_spur_gear'', ''POST'', ''create_spur_gear_involute''),
      (''fusion_create_rack_gear'', ''POST'', ''create_rack_gear''),
      (''fusion_create_helical_gear'', ''POST'', ''create_helical_gear''),
      (''fusion_create_internal_gear'', ''POST'', ''create_internal_gear''),
      (''fusion_create_bevel_gear'', ''POST'', ''create_bevel_gear'')]"

text \<open>An entry of the conversation: \<open>{"role": ..., "content": ...}\<close>.\<close>

record message =
  role :: string
  content :: string

text \<open>A request sent to the bridge: \<open>GET path\<close>, or \<open>POST path\<close> with a JSON body.\<close>

datatype net_call = GET string | POST string json

text \<open>
  The services outside the program, each working on the state \<open>'w\<close> of the outside
  world: the model (\<open>client.responses.create(...).output_text\<close> for a conversation, which
  may be \<open>None\<close>) and the HTTP client (the body \<open>r.json()\<close> of the response; \<open>Inl\<close> is
  the exception raised by the request or by \<open>raise_for_status\<close>).
\<close>

record 'w services =
  complete :: "message list \<Rightarrow> 'w \<Rightarrow> (py_exn + string option) \<times> 'w"
  http_get :: "string \<Rightarrow> 'w \<Rightarrow> (py_exn + json) \<times> 'w"
  http_post :: "string \<Rightarrow> json \<Rightarrow> 'w \<Rightarrow> (py_exn + json) \<times> 'w"

text \<open>
  The state of a run: the conversation and the outside world, with the number of calls
  of the model, the calls of \<open>_execute_tool\<close> (tool name and arguments) and the requests
  sent to the bridge.
\<close>

record 'w agent =
  messages :: "message list"
  world :: 'w
  model_calls :: nat
  dispatched :: "(json \<times> json) list"
  requests :: "net_call list"

text \<open>\<open>fusion_get\<close> and \<open>fusion_tool\<close>.\<close>

definition fusion_get :: "'w services \<Rightarrow> string \<Rightarrow> 'w agent \<Rightarrow> (py_exn + json) \<times> 'w agent" where
  "fusion_get E p a =
     (case http_get E p (world a) of
        (r, w) \<Rightarrow> (r, a\<lparr>world := w, requests := requests a @ [GET p]\<rparr>))"

definition fusion_tool ::
  "'w services \<Rightarrow> string \<Rightarrow> json \<Rightarrow> 'w agent \<Rightarrow> (py_exn + json) \<times> 'w agent" where
  "fusion_tool E tool args a =
     (let body = JDict [(''tool'', JStr tool),
                        (''args'', if truthy args then args else JDict [])]
      in case http_post E ''/tool'' body (world a) of
           (r, w) \<Rightarrow> (r, a\<lparr>world := w, requests := requests a @ [POST ''/tool'' body]\<rparr>))"

definition tool_not_allowed :: "pylib \<Rightarrow> json \<Rightarrow> json" where
  "tool_not_allowed L tool_name =
     JDict [(''ok'', JBool False), (''error'', JStr (''Tool not allowed: '' @ py_str L tool_name))]"

text \<open>\<open>_execute_tool\<close>.\<close>

definition execute_tool ::
  "pylib \<Rightarrow> 'w services \<Rightarrow> json \<Rightarrow> json \<Rightarrow> 'w agent \<Rightarrow> (py_exn + json) \<times> 'w agent" where
  "execute_tool L E tool_name args a =
     (case lookup_key tool_name TOOL_ROUTER of
        Inl e \<Rightarrow> (Inl e, a)
      | Inr None \<Rightarrow> (Inr (tool_not_allowed L tool_name), a)
      | Inr (Some kind) \<Rightarrow>
          (if fst kind = ''GET'' then fusion_get E (snd kind) a
           else fusion_tool E (snd kind) args a))"

definition tool_result :: "json \<Rightarrow> json \<Rightarrow> json \<Rightarrow> json" where
  "tool_result tool_name args res =
     JDict [(''tool_result'',
             JDict [(''tool_name'', tool_name), (''args'', args), (''result'', res)])]"

definition MAX_STEPS_MESSAGE :: string where
  "MAX_STEPS_MESSAGE = ''Max steps reached without finishing.''"

definition invalid_json_message :: "string \<Rightarrow> py_exn \<Rightarrow> string" where
  "invalid_json_message raw e =
     ''Model did not return valid JSON.'' @ [CHR 0x0A] @ ''Raw:'' @ [CHR 0x0A] @ raw
       @ [CHR 0x0A] @ ''Error: '' @ exn_str e"

text \<open>
  One pass of the body of the loop of \<open>agent_turn\<close>, in three parts. Each result is
  \<open>Inl e\<close> when the exception \<open>e\<close> leaves \<open>agent_turn\<close>, \<open>Inr (Some reply)\<close> when the body
  returns \<open>reply\<close>, and \<open>Inr None\<close> when the body reaches its end and the loop goes on.

  \<open>tool_step\<close> is the part from \<open># Execute tool\<close>: the call of \<open>_execute_tool\<close> inside its
  \<open>try\<close>, and the \<open>tool_result\<close> entry appended to the conversation.
\<close>

definition tool_step ::
  "pylib \<Rightarrow> 'w services \<Rightarrow> json \<Rightarrow> json \<Rightarrow> 'w agent \<Rightarrow> (py_exn + json option) \<times> 'w agent" where
  "tool_step L E tool_name args a =
     (case execute_tool L E tool_name args
             (a\<lparr>dispatched := dispatched a @ [(tool_name, args)]\<rparr>) of
        (r, a') \<Rightarrow>
          (let res = (case r of
                        Inr v \<Rightarrow> v
                      | Inl e \<Rightarrow> JDict [(''ok'', JBool False), (''error'', JStr (exn_str e))])
           in (Inr None,
               a'\<lparr>messages := messages a' @
                     [\<lparr>role = ''user'',
                       content = json_dumps_indent L (tool_result tool_name args res)\<rparr>]\<rparr>)))"

text \<open>
  \<open>act\<close> is the part from \<open>action = cmd.get("action")\<close> to the check of \<open>tool_name\<close>.
\<close>

definition act ::
  "pylib \<Rightarrow> 'w services \<Rightarrow> json \<Rightarrow> 'w agent \<Rightarrow> (py_exn + json option) \<times> 'w agent" where
  "act L E cmd a =
     (case dict_get cmd ''action'' JNull of
        Inl e \<Rightarrow> (Inl e, a)
      | Inr action \<Rightarrow>
          (if action = JStr ''final'' then
             (case dict_get cmd ''message'' (JStr []) of
                Inl e \<Rightarrow> (Inl e, a)
              | Inr m \<Rightarrow> (Inr (Some m), a))
           else if action \<noteq> JStr ''tool'' then
             (Inr (Some (JStr (''Unknown action: '' @ str_of L cmd))), a)
           else
             (case dict_get cmd ''tool_name'' JNull of
                Inl e \<Rightarrow> (Inl e, a)
              | Inr tool_name \<Rightarrow>
                  (case dict_get cmd ''args'' JNull of
                     Inl e \<Rightarrow> (Inl e, a)
                   | Inr a0 \<Rightarrow>
                       (let args = (if truthy a0 then a0 else JDict [])
                        in if \<not> truthy tool_name then
                             (Inr (Some (JStr (''Missing tool_name in: '' @ str_of L cmd))), a)
                           else tool_step L E tool_name args a)))))"

text \<open>
  \<open>agent_cycle\<close> is the whole body: the call of the model, \<open>_parse_json_only\<close> inside its
  \<open>try\<close>, the entry of the model's answer in the conversation, and the rest.
\<close>

definition agent_cycle ::
  "pylib \<Rightarrow> 'w services \<Rightarrow> 'w agent \<Rightarrow> (py_exn + json option) \<times> 'w agent" where
  "agent_cycle L E a =
     (case complete E (messages a) (world a) of
        (Inl e, w) \<Rightarrow> (Inl e, a\<lparr>world := w, model_calls := Suc (model_calls a)\<rparr>)
      | (Inr output_text, w) \<Rightarrow>
          (let a1 = a\<lparr>world := w, model_calls := Suc (model_calls a)\<rparr>;
               raw = strip (case output_text of None \<Rightarrow> [] | Some t \<Rightarrow> t)
           in case parse_json_only L raw of
                Inl e \<Rightarrow>
                  (Inr (Some (JStr (invalid_json_message raw e))),
                   a1\<lparr>messages := messages a1 @ [\<lparr>role = ''assistant'', content = raw\<rparr>]\<rparr>)
              | Inr cmd \<Rightarrow>
                  act L E cmd
                    (a1\<lparr>messages := messages a1 @
                          [\<lparr>role = ''assistant'', content = json_dumps L cmd\<rparr>]\<rparr>)))"


text \<open>The loop \<open>for _ in range(n)\<close> and the \<open>return\<close> after it.\<close>

fun agent_loop ::
  "pylib \<Rightarrow> 'w services \<Rightarrow> nat \<Rightarrow> 'w agent \<Rightarrow> (py_exn + json) \<times> 'w agent" where
  "agent_loop L E 0 a = (Inr (JStr MAX_STEPS_MESSAGE), a)"
| "agent_loop L E (Suc n) a =
     (case agent_cycle L E a of
        (Inl e, a') \<Rightarrow> (Inl e, a')
      | (Inr (Some reply), a') \<Rightarrow> (Inr reply, a')
      | (Inr None, a') \<Rightarrow> agent_loop L E n a')"

text \<open>\<open>agent_turn\<close>.\<close>

definition agent_turn ::
  "pylib \<Rightarrow> 'w services \<Rightarrow> string \<Rightarrow> 'w agent \<Rightarrow> (py_exn + json) \<times> 'w agent" where
  "agent_turn L E user_text a =
     agent_loop L E 12 (a\<lparr>messages := messages a @ [\<lparr>role = ''user'', content = user_text\<rparr>]\<rparr>)"

section \<open>The script run_agent.py\<close>

text \<open>
  The script has a loop of its own, over the same \<open>fusion_get\<close> and \<open>fusion_tool\<close>.
  \<open>ALLOWED_TOOLS\<close> maps a tool name to a call of one of them, written here as the method and
  its target.
\<close>

definition ALLOWED_TOOLS :: "(string \<times> string \<times> string) list" where
  "ALLOWED_TOOLS =
     [(''fusion_ping'', ''GET'', ''/ping''),
      (''fusion_get_state'', ''GET'', ''/state''),
      (''fusion_create_sketch_rect_xy'', ''POST'', ''create_sketch_rect_xy''),
      (''fusion_extrude_last_profile'', ''POST'', ''extrude_last_profile'')]"

definition RuntimeError :: "string \<Rightarrow> py_exn" where
  "RuntimeError msg = Py_exn ''RuntimeError'' msg"

definition extract_json :: "pylib \<Rightarrow> string \<Rightarrow> py_exn + json" where
  "extract_json L model_text = json_loads L (strip model_text)"

definition main_invalid_json_message :: "string \<Rightarrow> py_exn \<Rightarrow> string" where
  "main_invalid_json_message model_text e =
     ''Model did not return valid JSON.'' @ [CHR 0x0A] @ ''Got:'' @ [CHR 0x0A] @ model_text
       @ [CHR 0x0A, CHR 0x0A] @ ''Error: '' @ exn_str e"

text \<open>
  One pass of the body of the loop of \<open>main\<close>, in two parts. Each result is \<open>Inl e\<close> when
  the exception \<open>e\<close> leaves \<open>main\<close>, \<open>Inr (Some m)\<close> when the body prints \<open>m\<close> and returns, and
  \<open>Inr None\<close> when the body reaches its end and the loop goes on.
\<close>

definition main_act ::
  "pylib \<Rightarrow> 'w services \<Rightarrow> string \<Rightarrow> json \<Rightarrow> 'w agent \<Rightarrow> (py_exn + json option) \<times> 'w agent" where
  "main_act L E model_text cmd a =
     (case dict_get cmd ''action'' JNull of
        Inl e \<Rightarrow> (Inl e, a)
      | Inr action \<Rightarrow>
          (if action = JStr ''final'' then
             (case dict_get cmd ''message'' (JStr []) of
                Inl e \<Rightarrow> (Inl e, a)
              | Inr m \<Rightarrow> (Inr (Some m), a))
           else if action \<noteq> JStr ''tool'' then
             (Inl (RuntimeError (''Unknown action: '' @ str_of L cmd)), a)
           else
             (case dict_get cmd ''tool_name'' JNull of
                Inl e \<Rightarrow> (Inl e, a)
              | Inr tool_name \<Rightarrow>
                  (case dict_get cmd ''args'' JNull of
                     Inl e \<Rightarrow> (Inl e, a)
                   | Inr a0 \<Rightarrow>
                       (let args = (if truthy a0 then a0 else JDict [])
                        in case lookup_key tool_name ALLOWED_TOOLS of
                             Inl e \<Rightarrow> (Inl e, a)
                           | Inr None \<Rightarrow>
                               (Inl (RuntimeError (''Tool not allowed: '' @ py_str L tool_name)), a)
                           | Inr (Some kind) \<Rightarrow>
                               (case (if fst kind = ''GET'' then fusion_get E (snd kind)
                                      else fusion_tool E (snd kind) args)
                                       (a\<lparr>dispatched := dispatched a @ [(tool_name, args)]\<rparr>) of
                                  (r, a') \<Rightarrow>
                                    (let res = (case r of
                                                  Inr v \<Rightarrow> v
                                                | Inl e \<Rightarrow> JDict [(''ok'', JBool False),
                                                                  (''error'', JStr (exn_str e))])
                                     in (Inr None,
                                         a'\<lparr>messages := messages a' @
                                               [\<lparr>role = ''assistant'', content = model_text\<rparr>,
                                                \<lparr>role = ''user'',
                                                 content = json_dumps_indent L
                                                   (tool_result tool_name args res)\<rparr>]\<rparr>))))))))"

definition main_cycle ::
  "pylib \<Rightarrow> 'w services \<Rightarrow> 'w agent \<Rightarrow> (py_exn + json option) \<times> 'w agent" where
  "main_cycle L E a =
     (case complete E (messages a) (world a) of
        (Inl e, w) \<Rightarrow> (Inl e, a\<lparr>world := w, model_calls := Suc (model_calls a)\<rparr>)
      | (Inr output_text, w) \<Rightarrow>
          (let a1 = a\<lparr>world := w, model_calls := Suc (model_calls a)\<rparr>;
               model_text = strip (case output_text of None \<Rightarrow> [] | Some t \<Rightarrow> t)
           in case extract_json L model_text of
                Inl e \<Rightarrow> (Inl (RuntimeError (main_invalid_json_message model_text e)), a1)
              | Inr cmd \<Rightarrow> main_act L E model_text cmd a1))"

text \<open>
  The loop \<open>for step in range(n)\<close> and the \<open>raise\<close> after it. The result \<open>Inr m\<close> is the
  message that \<open>main\<close> has printed before it returned.
\<close>

fun main_loop ::
  "pylib \<Rightarrow> 'w services \<Rightarrow> nat \<Rightarrow> 'w agent \<Rightarrow> (py_exn + json) \<times> 'w agent" where
  "main_loop L E 0 a = (Inl (RuntimeError MAX_STEPS_MESSAGE), a)"
| "main_loop L E (Suc n) a =
     (case main_cycle L E a of
        (Inl e, a') \<Rightarrow> (Inl e, a')
      | (Inr (Some m), a') \<Rightarrow> (Inr m, a')
      | (Inr None, a') \<Rightarrow> main_loop L E n a')"

text \<open>
  \<open>main\<close>, for the texts \<open>SYSTEM\<close> and \<open>GOAL\<close> of the script and the state \<open>w\<close> of the outside
  world. \<open>range(max_steps)\<close> is empty for a negative \<open>max_steps\<close>; the script calls \<open>main()\<close>,
  with the default \<open>max_steps = 8\<close>.
\<close>

definition main ::
  "pylib \<Rightarrow> 'w services \<Rightarrow> string \<Rightarrow> string \<Rightarrow> int \<Rightarrow> 'w \<Rightarrow> (py_exn + json) \<times> 'w agent" where
  "main L E system_text goal_text max_steps w =
     main_loop L E (nat max_steps)
       \<lparr>messages = [\<lparr>role = ''system'', content = system_text\<rparr>,
                    \<lparr>role = ''user'', content = goal_text\<rparr>],
        world = w, model_calls = 0, dispatched = [], requests = []\<rparr>"

definition DEFAULT_MAX_STEPS :: int where
  "DEFAULT_MAX_STEPS = 8"

section \<open>A reference instance of the library functions\<close>

text \<open>
  The theorems about the program hold for every \<open>pylib\<close>. The closed examples need one:
  \<open>loads\<close> follows the grammar that \<open>json.loads\<close> accepts, for texts without \<open>\u\<close>
  escapes, fractions, exponents and the constants \<open>NaN\<close> and \<open>Infinity\<close> (on these it
  answers with an exception of the class \<open>NotModelled\<close>). The message of a
  \<open>JSONDecodeError\<close> is given without the position that the library appends. The
  recursion is bounded by a number of steps that grows with the length of the text.
\<close>

definition json_ws :: "char \<Rightarrow> bool" where
  "json_ws c = (c \<in> set [CHR 0x20, CHR 0x09, CHR 0x0A, CHR 0x0D])"

definition skip_ws :: "string \<Rightarrow> string" where
  "skip_ws cs = dropWhile json_ws cs"

definition decode_error :: "string \<Rightarrow> py_exn" where
  "decode_error m = Py_exn ''JSONDecodeError'' m"

definition not_modelled :: "string \<Rightarrow> py_exn" where
  "not_modelled m = Py_exn ''NotModelled'' m"

definition unescape :: "char \<Rightarrow> char option" where
  "unescape c =
     (if c = CHR 0x22 then Some (CHR 0x22)
      else if c = CHR 0x5C then Some (CHR 0x5C)
      else if c = CHR ''/'' then Some (CHR ''/'')
      else if c = CHR ''b'' then Some (CHR 0x08)
      else if c = CHR ''f'' then Some (CHR 0x0C)
      else if c = CHR ''n'' then Some (CHR 0x0A)
      else if c = CHR ''r'' then Some (CHR 0x0D)
      else if c = CHR ''t'' then Some (CHR 0x09)
      else None)"

text \<open>The characters of a string after its opening quote, up to the closing quote.\<close>

fun scan_string :: "string \<Rightarrow> string \<Rightarrow> py_exn + (string \<times> string)" where
  "scan_string acc [] = Inl (decode_error ''Unterminated string starting at'')"
| "scan_string acc [c] =
     (if c = CHR 0x22 then Inr (rev acc, [])
      else Inl (decode_error ''Unterminated string starting at''))"
| "scan_string acc (c # e # cs) =
     (if c = CHR 0x22 then Inr (rev acc, e # cs)
      else if c = CHR 0x5C then
        (if e = CHR ''u'' then Inl (not_modelled ''unicode escape'')
         else case unescape e of
                None \<Rightarrow> Inl (decode_error ''Invalid escape'')
              | Some x \<Rightarrow> scan_string (x # acc) cs)
      else if (of_char c :: nat) < 32 then Inl (decode_error ''Invalid control character at'')
      else scan_string (c # acc) (e # cs))"

definition is_digit :: "char \<Rightarrow> bool" where
  "is_digit c = (48 \<le> (of_char c :: nat) \<and> (of_char c :: nat) \<le> 57)"

fun scan_digits :: "nat \<Rightarrow> string \<Rightarrow> nat \<times> string" where
  "scan_digits n [] = (n, [])"
| "scan_digits n (c # cs) =
     (if is_digit c then scan_digits (10 * n + (of_char c - 48)) cs else (n, c # cs))"

text \<open>Whether a fraction or an exponent follows the integer part of a number.\<close>

fun float_follows :: "string \<Rightarrow> bool" where
  "float_follows (c # d # cs) =
     ((c = CHR ''.'' \<and> is_digit d) \<or>
      ((c = CHR ''e'' \<or> c = CHR ''E'') \<and>
       (is_digit d \<or> ((d = CHR ''+'' \<or> d = CHR ''-'') \<and> (case cs of [] \<Rightarrow> False | x # _ \<Rightarrow> is_digit x)))))"
| "float_follows cs = False"

definition scan_number :: "string \<Rightarrow> py_exn + (json \<times> string)" where
  "scan_number cs =
     (let neg = (case cs of [] \<Rightarrow> False | c # _ \<Rightarrow> c = CHR ''-'');
          ds = (if neg then tl cs else cs)
      in case ds of
           [] \<Rightarrow> Inl (decode_error ''Expecting value'')
         | d # r \<Rightarrow>
             (if \<not> is_digit d then
                (if startswith ds ''Infinity'' then Inl (not_modelled ''Infinity'')
                 else Inl (decode_error ''Expecting value''))
              else
                (case (if d = CHR ''0'' then (0, r) else scan_digits 0 ds) of
                   (n, rest) \<Rightarrow>
                     (if float_follows rest then Inl (not_modelled ''float'')
                      else Inr (JInt (if neg then - int n else int n), rest)))))"

text \<open>A later value of a key replaces the earlier one, at the place of the earlier one.\<close>

fun dict_store :: "(string \<times> json) list \<Rightarrow> string \<Rightarrow> json \<Rightarrow> (string \<times> json) list" where
  "dict_store [] k v = [(k, v)]"
| "dict_store ((k', v') # kvs) k v =
     (if k' = k then (k, v) # kvs else (k', v') # dict_store kvs k v)"

fun parse_value :: "nat \<Rightarrow> string \<Rightarrow> py_exn + (json \<times> string)"
  and parse_elements :: "nat \<Rightarrow> json list \<Rightarrow> string \<Rightarrow> py_exn + (json \<times> string)"
  and parse_members :: "nat \<Rightarrow> (string \<times> json) list \<Rightarrow> string \<Rightarrow> py_exn + (json \<times> string)"
where
  "parse_value 0 cs = Inl (not_modelled ''out of steps'')"
| "parse_value (Suc n) cs =
     (case cs of
        [] \<Rightarrow> Inl (decode_error ''Expecting value'')
      | c # r \<Rightarrow>
          (if c = CHR 0x22 then
             (case scan_string [] r of
                Inl e \<Rightarrow> Inl e
              | Inr (s, rest) \<Rightarrow> Inr (JStr s, rest))
           else if c = CHR ''{'' then
             (case skip_ws r of
                [] \<Rightarrow> Inl (decode_error ''Expecting property name enclosed in double quotes'')
              | x # r' \<Rightarrow>
                  (if x = CHR ''}'' then Inr (JDict [], r') else parse_members n [] (x # r')))
           else if c = CHR ''['' then
             (case skip_ws r of
                [] \<Rightarrow> Inl (decode_error ''Expecting value'')
              | x # r' \<Rightarrow>
                  (if x = CHR '']'' then Inr (JList [], r') else parse_elements n [] (x # r')))
           else if startswith cs ''null'' then Inr (JNull, drop 4 cs)
           else if startswith cs ''true'' then Inr (JBool True, drop 4 cs)
           else if startswith cs ''false'' then Inr (JBool False, drop 5 cs)
           else if startswith cs ''NaN'' then Inl (not_modelled ''NaN'')
           else if startswith cs ''Infinity'' then Inl (not_modelled ''Infinity'')
           else if c = CHR ''-'' \<or> is_digit c then scan_number cs
           else Inl (decode_error ''Expecting value'')))"
| "parse_elements 0 acc cs = Inl (not_modelled ''out of steps'')"
| "parse_elements (Suc n) acc cs =
     (case parse_value n cs of
        Inl e \<Rightarrow> Inl e
      | Inr (v, rest) \<Rightarrow>
          (case skip_ws rest of
             [] \<Rightarrow> Inl (decode_error ''Expecting comma delimiter'')
           | x # r \<Rightarrow>
               (if x = CHR '']'' then Inr (JList (rev (v # acc)), r)
                else if x = CHR '','' then parse_elements n (v # acc) (skip_ws r)
                else Inl (decode_error ''Expecting comma delimiter''))))"
| "parse_members 0 acc cs = Inl (not_modelled ''out of steps'')"
| "parse_members (Suc n) acc cs =
     (case cs of
        [] \<Rightarrow> Inl (decode_error ''Expecting property name enclosed in double quotes'')
      | q # r \<Rightarrow>
          (if q \<noteq> CHR 0x22 then
             Inl (decode_error ''Expecting property name enclosed in double quotes'')
           else
             (case scan_string [] r of
                Inl e \<Rightarrow> Inl e
              | Inr (k, rest) \<Rightarrow>
                  (case skip_ws rest of
                     [] \<Rightarrow> Inl (decode_error ''Expecting colon delimiter'')
                   | y # r2 \<Rightarrow>
                       (if y \<noteq> CHR '':'' then Inl (decode_error ''Expecting colon delimiter'')
                        else
                          (case parse_value n (skip_ws r2) of
                             Inl e \<Rightarrow> Inl e
                           | Inr (v, rest2) \<Rightarrow>
                               (case skip_ws rest2 of
                                  [] \<Rightarrow> Inl (decode_error ''Expecting comma delimiter'')
                                | z # r3 \<Rightarrow>
                                    (if z = CHR ''}'' then Inr (JDict (dict_store acc k v), r3)
                                     else if z = CHR '','' then
                                       parse_members n (dict_store acc k v) (skip_ws r3)
                                     else Inl (decode_error ''Expecting comma delimiter'')))))))))"

definition loads :: "string \<Rightarrow> py_exn + json" where
  "loads text =
     (case parse_value (2 * length text + 2) (skip_ws text) of
        Inl e \<Rightarrow> Inl e
      | Inr (v, rest) \<Rightarrow>
          (if skip_ws rest = [] then Inr v else Inl (decode_error ''Extra data'')))"

text \<open>
  A rendering of a value as text, for \<open>json.dumps\<close> and \<open>str\<close> (the theorems do not depend
  on it), and a rendering of an exception for \<open>traceback.format_exc\<close>.
\<close>

fun digits :: "nat \<Rightarrow> string" where
  "digits n = (if n < 10 then [char_of (48 + n)] else digits (n div 10) @ [char_of (48 + n mod 10)])"

fun join :: "string \<Rightarrow> string list \<Rightarrow> string" where
  "join sep [] = []"
| "join sep [x] = x"
| "join sep (x # y # xs) = x @ sep @ join sep (y # xs)"

fun render :: "json \<Rightarrow> string" where
  "render JNull = ''null''"
| "render (JBool b) = (if b then ''true'' else ''false'')"
| "render (JInt i) = (if i < 0 then ''-'' @ digits (nat (- i)) else digits (nat i))"
| "render (JFloat r) = ''<float>''"
| "render (JStr s) = [CHR 0x22] @ s @ [CHR 0x22]"
| "render (JList xs) = ''['' @ join '', '' (map render xs) @ '']''"
| "render (JDict kvs) =
     ''{'' @ join '', '' (map (\<lambda>kv. [CHR 0x22] @ fst kv @ [CHR 0x22] @ '': '' @ render (snd kv)) kvs)
       @ ''}''"

definition render_exc :: "py_exn \<Rightarrow> string" where
  "render_exc e =
     ''Traceback (most recent call last):'' @ [CHR 0x0A] @ exn_class e
       @ (if exn_str e = [] then [] else '': '' @ exn_str e) @ [CHR 0x0A]"

definition reference_lib :: pylib where
  "reference_lib =
     \<lparr>json_loads = loads, json_dumps = render, json_dumps_indent = render,
      str_of = render, format_exc = render_exc\<rparr>"

section \<open>Handlers, bridges and services of the examples\<close>

definition returning :: "json \<Rightarrow> 'h handler" where
  "returning v = (\<lambda>payload h. (Inr v, h))"

definition raising :: "py_exn \<Rightarrow> 'h handler" where
  "raising e = (\<lambda>payload h. (Inl e, h))"

text \<open>The bridge after \<open>start()\<close>: nothing queued, nothing pending.\<close>

definition idle :: "unit bridge" where
  "idle = \<lparr>task_queue = [], task_results = Map.empty, events_fired = 0, ui = True,
           message_boxes = [], host = (), executed = []\<rparr>"

text \<open>
  A model that answers every conversation with the same text, and a bridge that answers
  every request with a success.
\<close>

definition constant_model :: "string \<Rightarrow> unit services" where
  "constant_model text =
     \<lparr>complete = (\<lambda>ms w. (Inr (Some text), w)),
      http_get = (\<lambda>p w. (Inr PONG, w)),
      http_post = (\<lambda>p body w. (Inr (ok_result JNull), w))\<rparr>"

definition fresh_agent :: "unit agent" where
  "fresh_agent = \<lparr>messages = [], world = (), model_calls = 0, dispatched = [], requests = []\<rparr>"

section \<open>Notions used in the statements\<close>

text \<open>The dictionary that the executor stores for what a handler call produced.\<close>

definition outcome_json :: "(py_exn \<Rightarrow> string) \<Rightarrow> py_exn + json \<Rightarrow> json" where
  "outcome_json fmt r =
     (case r of
        Inr out \<Rightarrow> ok_result out
      | Inl e \<Rightarrow> error_result (exn_str e) (fmt e))"

text \<open>The host application after the handlers of a list of tasks, called one after another.\<close>

definition run_handlers :: "(task_id \<times> 'h handler \<times> json) list \<Rightarrow> 'h \<Rightarrow> 'h" where
  "run_handlers q h = fold (\<lambda>t h'. snd ((fst (snd t)) (snd (snd t)) h')) q h"

text \<open>
  The host thread inside \<open>notify\<close>, stopped after the \<open>try\<close> and \<open>except\<close> part for the
  first queued task and before its \<open>finally\<close> clause: the result is stored and the event
  is not yet set.
\<close>

definition notify_interrupted :: "(py_exn \<Rightarrow> string) \<Rightarrow> 'h bridge \<Rightarrow> 'h bridge" where
  "notify_interrupted fmt s =
     (case task_queue s of
        [] \<Rightarrow> s
      | t # q \<Rightarrow> snd (try_except fmt t (s\<lparr>task_queue := q\<rparr>)))"

text \<open>
  Another thread that looks at the bridge while a caller waits: it records the pending
  map, the ids of the queued tasks and the number of events fired.
\<close>

type_synonym view = "(task_id \<rightharpoonup> slot) \<times> task_id list \<times> nat"

definition look :: "view bridge \<Rightarrow> view bridge" where
  "look s = s\<lparr>host := (task_results s, map fst (task_queue s), events_fired s)\<rparr>"





text \<open>
  The parse as the specification words it: the text is parsed as it is; when that fails,
  the substring from the first \<open>{\<close> to the last \<open>}\<close> is parsed instead.
\<close>

definition parse_with_recovery_spec :: "pylib \<Rightarrow> string \<Rightarrow> py_exn + json" where
  "parse_with_recovery_spec L text =
     (case json_loads L text of
        Inr v \<Rightarrow> Inr v
      | Inl e \<Rightarrow> json_loads L (slice text (find CHR ''{'' text) (rfind CHR ''}'' text + 1)))"

section \<open>The executor: one task and the whole queue\<close>

lemma slot_update_both: "(sl::slot)\<lparr>result := r, event := True\<rparr> = \<lparr>event = True, result = r\<rparr>"
  by (cases sl) simp

text \<open>A task whose entry is pending: the outcome is stored and the event is set.\<close>

lemma exec_task_present:
  assumes "task_results s tid = Some sl"
  shows "exec_task fmt (tid, fn, pl) s =
           (None, s\<lparr>host := snd (fn pl (host s)), executed := executed s @ [tid],
                     task_results := (task_results s)(tid \<mapsto>
                        \<lparr>event = True, result = outcome_json fmt (fst (fn pl (host s)))\<rparr>)\<rparr>)"
  using assms
  by (cases "fn pl (host s)")
     (auto simp: exec_task_def finally_clause_def try_except_def except_clause_def
                 set_result_def set_event_def outcome_json_def Let_def slot_update_both
           split: sum.splits)

text \<open>
  A task whose entry is gone: the handler runs, each of the three stores raises
  \<open>KeyError\<close>, and the last one leaves the inner \<open>try\<close>.
\<close>

lemma exec_task_absent:
  assumes "task_results s tid = None"
  shows "exec_task fmt (tid, fn, pl) s =
           (Some (KeyError tid), s\<lparr>host := snd (fn pl (host s)), executed := executed s @ [tid]\<rparr>)"
  using assms
  by (cases "fn pl (host s)")
     (auto simp: exec_task_def finally_clause_def try_except_def except_clause_def
                 set_result_def set_event_def Let_def
           split: sum.splits)

lemma drain_Nil: "task_queue s = [] \<Longrightarrow> drain fmt s = (None, s)"
  by (subst drain.simps) simp

lemma drain_Cons_present:
  assumes "task_queue s = (tid, fn, pl) # q" and "task_results s tid = Some sl"
  shows "drain fmt s =
           drain fmt (s\<lparr>task_queue := q, host := snd (fn pl (host s)),
                        executed := executed s @ [tid],
                        task_results := (task_results s)(tid \<mapsto>
                          \<lparr>event = True, result = outcome_json fmt (fst (fn pl (host s)))\<rparr>)\<rparr>)"
  using assms by (subst drain.simps) (simp add: exec_task_present)

lemma drain_Cons_absent:
  assumes "task_queue s = (tid, fn, pl) # q" and "task_results s tid = None"
  shows "drain fmt s =
           (Some (KeyError tid),
            s\<lparr>task_queue := q, host := snd (fn pl (host s)), executed := executed s @ [tid]\<rparr>)"
  using assms by (subst drain.simps) (simp add: exec_task_absent)

text \<open>The entries of the tasks that are not in the queue are left as they are.\<close>

lemma drain_other:
  assumes "task_queue s = q" and "tid \<notin> fst ` set q"
  shows "task_results (snd (drain fmt s)) tid = task_results s tid"
  using assms
proof (induction q arbitrary: s)
  case Nil
  then show ?case by (simp add: drain_Nil)
next
  case (Cons t q)
  obtain i fn pl where t: "t = (i, fn, pl)" by (cases t)
  show ?case
  proof (cases "task_results s i")
    case None
    with Cons.prems t show ?thesis by (simp add: drain_Cons_absent)
  next
    case (Some sl)
    let ?s' = "s\<lparr>task_queue := q, host := snd (fn pl (host s)),
                        executed := executed s @ [i],
                        task_results := (task_results s)(i \<mapsto>
                          \<lparr>event = True, result = outcome_json fmt (fst (fn pl (host s)))\<rparr>)\<rparr>"
    have "drain fmt s = drain fmt ?s'"
      using Cons.prems t Some by (simp add: drain_Cons_present)
    moreover have "task_results (snd (drain fmt ?s')) tid = task_results ?s' tid"
      using Cons.prems by (intro Cons.IH) auto
    moreover have "i \<noteq> tid" using Cons.prems t by auto
    ultimately show ?thesis by simp
  qed
qed

text \<open>The executor never adds or removes an entry of the pending map.\<close>

lemma drain_dom:
  assumes "task_queue s = q"
  shows "dom (task_results (snd (drain fmt s))) = dom (task_results s)"
  using assms
proof (induction q arbitrary: s)
  case Nil
  then show ?case by (simp add: drain_Nil)
next
  case (Cons t q)
  obtain i fn pl where t: "t = (i, fn, pl)" by (cases t)
  show ?case
  proof (cases "task_results s i")
    case None
    with Cons.prems t show ?thesis by (simp add: drain_Cons_absent)
  next
    case (Some sl)
    let ?s' = "s\<lparr>task_queue := q, host := snd (fn pl (host s)),
                        executed := executed s @ [i],
                        task_results := (task_results s)(i \<mapsto>
                          \<lparr>event = True, result = outcome_json fmt (fst (fn pl (host s)))\<rparr>)\<rparr>"
    have "drain fmt s = drain fmt ?s'"
      using Cons.prems t Some by (simp add: drain_Cons_present)
    moreover have "dom (task_results (snd (drain fmt ?s'))) = dom (task_results ?s')"
      by (intro Cons.IH) auto
    ultimately show ?thesis using Some by auto
  qed
qed

text \<open>
  When every queued task still has its entry, one notification empties the queue, calls
  the handlers in the order of the queue, each on the host state that the one before it
  left, and no exception leaves the loop.
\<close>

lemma drain_complete:
  assumes "task_queue s = q" and "fst ` set q \<subseteq> dom (task_results s)"
  shows "fst (drain fmt s) = None \<and> task_queue (snd (drain fmt s)) = [] \<and>
         executed (snd (drain fmt s)) = executed s @ map fst q \<and>
         host (snd (drain fmt s)) = run_handlers q (host s)"
  using assms
proof (induction q arbitrary: s)
  case Nil
  then show ?case by (simp add: drain_Nil run_handlers_def)
next
  case (Cons t q)
  obtain i fn pl where t: "t = (i, fn, pl)" by (cases t)
  from Cons.prems t obtain sl where Some: "task_results s i = Some sl" by auto
  let ?s' = "s\<lparr>task_queue := q, host := snd (fn pl (host s)),
                      executed := executed s @ [i],
                      task_results := (task_results s)(i \<mapsto>
                        \<lparr>event = True, result = outcome_json fmt (fst (fn pl (host s)))\<rparr>)\<rparr>"
  have eq: "drain fmt s = drain fmt ?s'"
    using Cons.prems t Some by (simp add: drain_Cons_present)
  have "fst (drain fmt ?s') = None \<and> task_queue (snd (drain fmt ?s')) = [] \<and>
         executed (snd (drain fmt ?s')) = executed ?s' @ map fst q \<and>
         host (snd (drain fmt ?s')) = run_handlers q (host ?s')"
    using Cons.prems by (intro Cons.IH) auto
  then show ?case using eq t by (simp add: run_handlers_def)
qed

text \<open>The outcome of the last task of such a queue.\<close>

lemma drain_last:
  assumes "task_queue s = q @ [(tid, fn, pl)]"
      and "fst ` set q \<subseteq> dom (task_results s)"
      and "tid \<in> dom (task_results s)"
      and "tid \<notin> fst ` set q"
  shows "task_results (snd (drain fmt s)) tid =
           Some \<lparr>event = True, result = outcome_json fmt (fst (fn pl (run_handlers q (host s))))\<rparr>"
  using assms
proof (induction q arbitrary: s)
  case Nil
  then obtain sl where sl: "task_results s tid = Some sl" by auto
  let ?s' = "s\<lparr>task_queue := [], host := snd (fn pl (host s)),
                      executed := executed s @ [tid],
                      task_results := (task_results s)(tid \<mapsto>
                        \<lparr>event = True, result = outcome_json fmt (fst (fn pl (host s)))\<rparr>)\<rparr>"
  have "drain fmt s = drain fmt ?s'"
    using Nil.prems sl by (simp add: drain_Cons_present)
  also have "\<dots> = (None, ?s')" by (simp add: drain_Nil)
  finally show ?case by (simp add: run_handlers_def)
next
  case (Cons t q)
  obtain i f p where t: "t = (i, f, p)" by (cases t)
  from Cons.prems t obtain sl where Some: "task_results s i = Some sl" by auto
  have ne: "i \<noteq> tid" using Cons.prems t by auto
  let ?s' = "s\<lparr>task_queue := q @ [(tid, fn, pl)], host := snd (f p (host s)),
                      executed := executed s @ [i],
                      task_results := (task_results s)(i \<mapsto>
                        \<lparr>event = True, result = outcome_json fmt (fst (f p (host s)))\<rparr>)\<rparr>"
  have eq: "drain fmt s = drain fmt ?s'"
    using Cons.prems t Some by (simp add: drain_Cons_present)
  have "task_results (snd (drain fmt ?s')) tid =
           Some \<lparr>event = True, result = outcome_json fmt (fst (fn pl (run_handlers q (host ?s'))))\<rparr>"
    using Cons.prems ne by (intro Cons.IH) auto
  then show ?case using eq t by (simp add: run_handlers_def)
qed

lemma notify_task_results: "task_results (notify fmt s) = task_results (snd (drain fmt s))"
  by (cases "drain fmt s") (auto simp: notify_def split: option.splits)

section \<open>The submitter\<close>

lemma submit_begin_simps:
  "task_results (submit_begin tid fn pl s) = (task_results s)(tid \<mapsto> \<lparr>event = False, result = JNull\<rparr>)"
  "task_queue (submit_begin tid fn pl s) = task_queue s @ [(tid, fn, pl)]"
  "events_fired (submit_begin tid fn pl s) = Suc (events_fired s)"
  "host (submit_begin tid fn pl s) = host s"
  "executed (submit_begin tid fn pl s) = executed s"
  by (simp_all add: submit_begin_def Let_def)


text \<open>The wait never lasts longer than the timeout.\<close>

lemma ev_wait_bound:
  assumes "now \<le> timeout"
  shows "fst (snd (ev_wait timeout tid now sched s)) \<le> timeout"
  using assms
proof (induction sched arbitrary: now s)
  case Nil
  then show ?case by simp
next
  case (Cons a sched)
  obtain t act where a: "a = (t, act)" by (cases a)
  show ?case
    using Cons.prems Cons.IH [of "max now t" "act s"] a by simp
qed

lemma run_on_fusion_thread_unfold:
  assumes "ev_wait WAIT_TIMEOUT tid 0 sched (submit_begin tid fn pl s) = (flag, waited, s1)"
  shows "run_on_fusion_thread tid fn pl sched s =
           (fst (submit_end tid s1), waited, snd (submit_end tid s1))"
  using assms by (simp add: run_on_fusion_thread_def split: prod.splits)

text \<open>A submission during which no other thread acts on the bridge.\<close>

lemma run_without_host:
  "run_on_fusion_thread tid fn pl [] s =
     (Inr TIMEOUT_RESULT, 30,
      (submit_begin tid fn pl s)
        \<lparr>task_results := (task_results (submit_begin tid fn pl s))(tid := None)\<rparr>)"
proof -
  have wait: "ev_wait WAIT_TIMEOUT tid 0 [] (submit_begin tid fn pl s)
                = (False, 30, submit_begin tid fn pl s)"
    by (simp add: is_set_def submit_begin_simps WAIT_TIMEOUT_def)
  show ?thesis
    by (simp add: run_on_fusion_thread_unfold [OF wait] submit_end_def submit_begin_simps Let_def)
qed

text \<open>
  A submission that the host thread serves within the timeout, every task queued before
  it still having its entry: the call returns what the executor stored for the handler,
  called on the host state that the earlier handlers left.
\<close>

lemma run_result_in_time:
  assumes pending: "fst ` set (task_queue s) \<subseteq> dom (task_results s)"
      and fresh: "tid \<notin> dom (task_results s)"
      and in_time: "t \<le> WAIT_TIMEOUT"
  shows "run_on_fusion_thread tid fn pl [(t, notify fmt)] s =
           (Inr (outcome_json fmt (fst (fn pl (run_handlers (task_queue s) (host s))))),
            max 0 t,
            (notify fmt (submit_begin tid fn pl s))
              \<lparr>task_results := (task_results (notify fmt (submit_begin tid fn pl s)))(tid := None)\<rparr>)"
proof -
  let ?s1 = "submit_begin tid fn pl s"
  let ?r = "outcome_json fmt (fst (fn pl (run_handlers (task_queue s) (host s))))"
  have q: "task_queue ?s1 = task_queue s @ [(tid, fn, pl)]"
    by (simp add: submit_begin_simps)
  have p1: "fst ` set (task_queue s) \<subseteq> dom (task_results ?s1)"
    using pending by (auto simp: submit_begin_simps)
  have p2: "tid \<in> dom (task_results ?s1)" by (simp add: submit_begin_simps)
  have p3: "tid \<notin> fst ` set (task_queue s)" using pending fresh by auto
  have stored: "task_results (notify fmt ?s1) tid = Some \<lparr>event = True, result = ?r\<rparr>"
    using drain_last [OF q p1 p2 p3, of fmt]
    by (simp add: notify_task_results submit_begin_simps)
  have unset: "\<not> is_set tid ?s1" by (simp add: is_set_def submit_begin_simps)
  have set: "is_set tid (notify fmt ?s1)"
    using stored by (simp add: is_set_def)
  have wait: "ev_wait WAIT_TIMEOUT tid 0 [(t, notify fmt)] ?s1 = (True, max 0 t, notify fmt ?s1)"
    using unset set in_time by simp
  have "?r \<noteq> JNull"
    by (simp add: outcome_json_def ok_result_def error_result_def split: sum.splits)
  then have "submit_end tid (notify fmt ?s1) =
      (Inr ?r, (notify fmt ?s1)\<lparr>task_results := (task_results (notify fmt ?s1))(tid := None)\<rparr>)"
    using stored by (simp add: submit_end_def Let_def)
  then show ?thesis
    by (simp add: run_on_fusion_thread_unfold [OF wait])
qed

section \<open>Task ids\<close>











lemma hex_fixed_numeral:
  "hex_fixed (numeral k) n = hex_fixed (pred_numeral k) (n div 16) @ [hex_digit (n mod 16)]"
  by (metis hex_fixed.simps(2) numeral_eq_Suc)

text \<open>The id for the random bytes that are all zero.\<close>

lemma new_task_id_zero: "new_task_id 0 = ''00000000-0000-4000-8000-000000000000''"
proof -
  have "uuid4 0 = 0x40008000000000000000"
    by (simp add: uuid4_def Let_def)
  then show ?thesis
    by (simp add: new_task_id_def UUID_str_def Let_def hex_fixed_numeral hex_digit_def)
qed

section \<open>Claims about the task bridge and the executor\<close>







text \<open>
  C4, as the code has it. The wait of every submission lasts at most
  \<open>WAIT_TIMEOUT = 30\<close>. When the wait is over and no result has been stored in the
  task's entry, the call returns
  \<open>{"ok": False, "error": "Timeout waiting for Fusion execution."}\<close> and removes the entry
  from the pending map. When a result has been stored, the call returns it and removes
  the entry, whether the event was set in time or not: the test is on the stored result,
  not on the flag that the wait returns.
\<close>

theorem submit_timeout:
  "WAIT_TIMEOUT = 30
   \<and> fst (snd (run_on_fusion_thread task_id fn payload sched s)) \<le> WAIT_TIMEOUT
   \<and> (ev_wait WAIT_TIMEOUT task_id 0 sched (submit_begin task_id fn payload s) = (flag, waited, s1)
        \<and> task_results s1 task_id = Some sl \<and> result sl = JNull \<longrightarrow>
      run_on_fusion_thread task_id fn payload sched s =
        (Inr TIMEOUT_RESULT, waited, s1\<lparr>task_results := (task_results s1)(task_id := None)\<rparr>))
   \<and> (ev_wait WAIT_TIMEOUT task_id 0 sched (submit_begin task_id fn payload s) = (flag, waited, s1)
        \<and> task_results s1 task_id = Some sl \<and> result sl \<noteq> JNull \<longrightarrow>
      run_on_fusion_thread task_id fn payload sched s =
        (Inr (result sl), waited, s1\<lparr>task_results := (task_results s1)(task_id := None)\<rparr>))"
proof -
  obtain f w s2 where
    w: "ev_wait WAIT_TIMEOUT task_id 0 sched (submit_begin task_id fn payload s) = (f, w, s2)"
    by (metis prod_cases3)
  have "fst (snd (ev_wait WAIT_TIMEOUT task_id 0 sched (submit_begin task_id fn payload s))) \<le> WAIT_TIMEOUT"
    by (rule ev_wait_bound) (simp add: WAIT_TIMEOUT_def)
  then have bound: "fst (snd (run_on_fusion_thread task_id fn payload sched s)) \<le> WAIT_TIMEOUT"
    using w by (simp add: run_on_fusion_thread_unfold [OF w])
  have timeout: "ev_wait WAIT_TIMEOUT task_id 0 sched (submit_begin task_id fn payload s) = (flag, waited, s1)
        \<and> task_results s1 task_id = Some sl \<and> result sl = JNull \<longrightarrow>
      run_on_fusion_thread task_id fn payload sched s =
        (Inr TIMEOUT_RESULT, waited, s1\<lparr>task_results := (task_results s1)(task_id := None)\<rparr>)"
  proof
    assume h: "ev_wait WAIT_TIMEOUT task_id 0 sched (submit_begin task_id fn payload s) = (flag, waited, s1)
        \<and> task_results s1 task_id = Some sl \<and> result sl = JNull"
    then have wait: "ev_wait WAIT_TIMEOUT task_id 0 sched (submit_begin task_id fn payload s) = (flag, waited, s1)"
      by simp
    have "submit_end task_id s1 =
        (Inr TIMEOUT_RESULT, s1\<lparr>task_results := (task_results s1)(task_id := None)\<rparr>)"
      using h by (simp add: submit_end_def Let_def)
    then show "run_on_fusion_thread task_id fn payload sched s =
        (Inr TIMEOUT_RESULT, waited, s1\<lparr>task_results := (task_results s1)(task_id := None)\<rparr>)"
      by (simp add: run_on_fusion_thread_unfold [OF wait])
  qed
  have stored: "ev_wait WAIT_TIMEOUT task_id 0 sched (submit_begin task_id fn payload s) = (flag, waited, s1)
        \<and> task_results s1 task_id = Some sl \<and> result sl \<noteq> JNull \<longrightarrow>
      run_on_fusion_thread task_id fn payload sched s =
        (Inr (result sl), waited, s1\<lparr>task_results := (task_results s1)(task_id := None)\<rparr>)"
  proof
    assume h: "ev_wait WAIT_TIMEOUT task_id 0 sched (submit_begin task_id fn payload s) = (flag, waited, s1)
        \<and> task_results s1 task_id = Some sl \<and> result sl \<noteq> JNull"
    then have wait: "ev_wait WAIT_TIMEOUT task_id 0 sched (submit_begin task_id fn payload s) = (flag, waited, s1)"
      by simp
    have "submit_end task_id s1 =
        (Inr (result sl), s1\<lparr>task_results := (task_results s1)(task_id := None)\<rparr>)"
      using h by (simp add: submit_end_def Let_def)
    then show "run_on_fusion_thread task_id fn payload sched s =
        (Inr (result sl), waited, s1\<lparr>task_results := (task_results s1)(task_id := None)\<rparr>)"
      by (simp add: run_on_fusion_thread_unfold [OF wait])
  qed
  show ?thesis
    using bound timeout stored by (simp add: WAIT_TIMEOUT_def)
qed

theorem submit_timeout_witness:
  "run_on_fusion_thread ''A'' (returning (JInt 1)) (JDict []) [] idle =
     (Inr TIMEOUT_RESULT, 30,
      (submit_begin ''A'' (returning (JInt 1)) (JDict []) idle)
        \<lparr>task_results := (task_results (submit_begin ''A'' (returning (JInt 1)) (JDict []) idle))
                            (''A'' := None)\<rparr>)
   \<and> fst (ev_wait WAIT_TIMEOUT ''B'' 0 [(10, notify_interrupted render_exc)]
             (submit_begin ''B'' (returning (JStr ''late'')) (JDict []) idle)) = False
   \<and> fst (run_on_fusion_thread ''B'' (returning (JStr ''late'')) (JDict [])
             [(10, notify_interrupted render_exc)] idle)
       = Inr (ok_result (JStr ''late''))"
proof -
  let ?s1 = "submit_begin ''A'' (returning (JInt 1)) (JDict []) idle"
  have wait: "ev_wait WAIT_TIMEOUT ''A'' 0 [] ?s1 = (False, 30, ?s1)"
    by (simp add: is_set_def submit_begin_simps WAIT_TIMEOUT_def)
  have slot: "task_results ?s1 ''A'' = Some \<lparr>event = False, result = JNull\<rparr>"
    by (simp add: submit_begin_simps)
  have empty: "result \<lparr>event = False, result = JNull\<rparr> = JNull" by simp
  have first: "run_on_fusion_thread ''A'' (returning (JInt 1)) (JDict []) [] idle =
     (Inr TIMEOUT_RESULT, 30,
      ?s1\<lparr>task_results := (task_results ?s1)(''A'' := None)\<rparr>)"
    by (rule submit_timeout [THEN conjunct2, THEN conjunct2, THEN conjunct1, THEN mp,
              OF conjI [OF wait conjI [OF slot empty]]])
  let ?s2 = "submit_begin ''B'' (returning (JStr ''late'')) (JDict []) idle"
  let ?s3 = "notify_interrupted render_exc ?s2"
  have res: "task_results ?s3 ''B'' = Some \<lparr>event = False, result = ok_result (JStr ''late'')\<rparr>"
    by (simp add: notify_interrupted_def submit_begin_def idle_def try_except_def returning_def
                  set_result_def Let_def)
  have wait2: "ev_wait WAIT_TIMEOUT ''B'' 0 [(10, notify_interrupted render_exc)] ?s2
                 = (False, 30, ?s3)"
    using res by (simp add: is_set_def submit_begin_simps WAIT_TIMEOUT_def)
  have full: "result \<lparr>event = False, result = ok_result (JStr ''late'')\<rparr> \<noteq> JNull"
    by (simp add: ok_result_def)
  have "run_on_fusion_thread ''B'' (returning (JStr ''late'')) (JDict [])
             [(10, notify_interrupted render_exc)] idle
          = (Inr (result \<lparr>event = False, result = ok_result (JStr ''late'')\<rparr>), 30,
             ?s3\<lparr>task_results := (task_results ?s3)(''B'' := None)\<rparr>)"
    by (rule submit_timeout [THEN conjunct2, THEN conjunct2, THEN conjunct2, THEN mp,
              OF conjI [OF wait2 conjI [OF res full]]])
  then have second: "fst (run_on_fusion_thread ''B'' (returning (JStr ''late'')) (JDict [])
             [(10, notify_interrupted render_exc)] idle) = Inr (ok_result (JStr ''late''))"
    by simp
  show ?thesis
    using first wait2 second by simp
qed

text \<open>
  C4 as stated fails: the host thread has stored the result of the task and has not yet
  set the event when the timeout passes. The wait returns \<open>False\<close> (the signal was not
  fired in time) and the call returns the handler's result, not the timeout failure.
\<close>

theorem submit_timeout_counterexample:
  "ev_wait WAIT_TIMEOUT ''A'' 0 [(29, notify_interrupted render_exc)]
       (submit_begin ''A'' (returning (JInt 7)) (JDict []) idle)
     = (False, 30, notify_interrupted render_exc (submit_begin ''A'' (returning (JInt 7)) (JDict []) idle))
   \<and> fst (run_on_fusion_thread ''A'' (returning (JInt 7)) (JDict [])
             [(29, notify_interrupted render_exc)] idle)
     = Inr (ok_result (JInt 7))"
proof -
  let ?s1 = "submit_begin ''A'' (returning (JInt 7)) (JDict []) idle"
  have res: "task_results (notify_interrupted render_exc ?s1) ''A''
               = Some \<lparr>event = False, result = ok_result (JInt 7)\<rparr>"
    by (simp add: notify_interrupted_def submit_begin_def idle_def try_except_def returning_def
                  set_result_def Let_def)
  have wait: "ev_wait WAIT_TIMEOUT ''A'' 0 [(29, notify_interrupted render_exc)] ?s1
               = (False, 30, notify_interrupted render_exc ?s1)"
    using res by (simp add: is_set_def submit_begin_simps WAIT_TIMEOUT_def)
  have "fst (submit_end ''A'' (notify_interrupted render_exc ?s1)) = Inr (ok_result (JInt 7))"
    using res by (simp add: submit_end_def Let_def ok_result_def)
  then show ?thesis
    using wait by (simp add: run_on_fusion_thread_unfold [OF wait])
qed

text \<open>
  C2, as the code has it. A handler raises the exception \<open>e\<close>; every task queued before
  it still has its entry and the host thread delivers the notification within the
  timeout. Then the call returns \<open>{"ok": False, "error": str(e), "trace": ...}\<close> as a
  value: no exception reaches the caller, and none leaves the loop of the executor. The
  message is the text of the exception, which may be empty.
\<close>

theorem handler_exception_is_failed_outcome:
  assumes pending: "fst ` set (task_queue s) \<subseteq> dom (task_results s)"
      and fresh: "task_id \<notin> dom (task_results s)"
      and raises: "\<And>h. fst (fn payload h) = Inl e"
      and in_time: "t \<le> WAIT_TIMEOUT"
  shows "fst (run_on_fusion_thread task_id fn payload [(t, notify fmt)] s)
           = Inr (error_result (exn_str e) (fmt e))
       \<and> fst (drain fmt (submit_begin task_id fn payload s)) = None"
proof -
  let ?s1 = "submit_begin task_id fn payload s"
  have "fst ` set (task_queue ?s1) \<subseteq> dom (task_results ?s1)"
    using pending by (auto simp: submit_begin_simps)
  then have none: "fst (drain fmt ?s1) = None"
    using drain_complete [OF refl, of ?s1 fmt] by simp
  have "fst (run_on_fusion_thread task_id fn payload [(t, notify fmt)] s)
          = Inr (outcome_json fmt (fst (fn payload (run_handlers (task_queue s) (host s)))))"
    by (simp add: run_result_in_time [OF pending fresh in_time])
  then show ?thesis
    using none raises by (simp add: outcome_json_def)
qed

theorem handler_exception_is_failed_outcome_witness:
  "fst (run_on_fusion_thread ''A'' (raising (Py_exn ''Exception'' ''No rack profile created.''))
          (JDict []) [(1, notify render_exc)] idle)
     = Inr (error_result ''No rack profile created.''
              (render_exc (Py_exn ''Exception'' ''No rack profile created.'')))
   \<and> fst (drain render_exc (submit_begin ''A''
            (raising (Py_exn ''Exception'' ''No rack profile created.'')) (JDict []) idle)) = None"
proof -
  have pending: "fst ` set (task_queue idle) \<subseteq> dom (task_results idle)" by (simp add: idle_def)
  have fresh: "''A'' \<notin> dom (task_results idle)" by (simp add: idle_def)
  have raises: "\<And>h::unit. fst (raising (Py_exn ''Exception'' ''No rack profile created.'') (JDict []) h)
                  = Inl (Py_exn ''Exception'' ''No rack profile created.'')"
    by (simp add: raising_def)
  have in_time: "(1::real) \<le> WAIT_TIMEOUT" by (simp add: WAIT_TIMEOUT_def)
  show ?thesis
    using handler_exception_is_failed_outcome
            [where s = idle and task_id = "''A''" and payload = "JDict []" and t = 1
               and fn = "raising (Py_exn ''Exception'' ''No rack profile created.'')"
               and e = "Py_exn ''Exception'' ''No rack profile created.''" and fmt = render_exc]
          pending fresh raises in_time
    by simp
qed

text \<open>
  C2 as stated fails on the message: a handler that raises \<open>Exception()\<close>, whose text is
  empty, yields a failure whose error message is the empty string.
\<close>

theorem handler_exception_counterexample:
  "fst (run_on_fusion_thread ''A'' (raising (Py_exn ''Exception'' [])) (JDict [])
          [(1, notify render_exc)] idle)
     = Inr (JDict [(''ok'', JBool False), (''error'', JStr []),
                   (''trace'', JStr (render_exc (Py_exn ''Exception'' [])))])"
proof -
  let ?s1 = "submit_begin ''A'' (raising (Py_exn ''Exception'' [])) (JDict []) idle"
  have sl: "task_results ?s1 ''A'' = Some \<lparr>event = False, result = JNull\<rparr>"
    by (simp add: submit_begin_simps)
  have q: "task_queue ?s1 = [(''A'', raising (Py_exn ''Exception'' []), JDict [])]"
    by (simp add: submit_begin_simps idle_def)
  have q': "task_queue ?s1 = [] @ [(''A'', raising (Py_exn ''Exception'' []), JDict [])]"
    using q by simp
  have "task_results (snd (drain render_exc ?s1)) ''A'' =
      Some \<lparr>event = True,
            result = outcome_json render_exc
              (fst (raising (Py_exn ''Exception'' []) (JDict []) (run_handlers [] (host ?s1))))\<rparr>"
    by (rule drain_last [OF q']) (simp_all add: submit_begin_simps)
  then have stored: "task_results (notify render_exc ?s1) ''A'' =
      Some \<lparr>event = True, result = error_result [] (render_exc (Py_exn ''Exception'' []))\<rparr>"
    by (simp add: notify_task_results outcome_json_def raising_def)
  have wait: "ev_wait WAIT_TIMEOUT ''A'' 0 [(1, notify render_exc)] ?s1
                = (True, 1, notify render_exc ?s1)"
    using stored sl by (simp add: is_set_def WAIT_TIMEOUT_def)
  have "fst (submit_end ''A'' (notify render_exc ?s1))
          = Inr (error_result [] (render_exc (Py_exn ''Exception'' [])))"
    using stored by (simp add: submit_end_def Let_def error_result_def)
  then show ?thesis
    by (simp add: run_on_fusion_thread_unfold [OF wait] error_result_def)
qed

text \<open>
  C1 at the failing input. The submission \<open>A\<close> times out and removes its entry; its task
  stays in the queue. \<open>B\<close> is submitted, and the host thread then delivers a notification.
  The handler of \<open>A\<close> runs, the store of its result raises \<open>KeyError\<close>, the exception
  leaves the loop and ends in the message box of the outer \<open>except\<close>; the task of \<open>B\<close> is
  still in the queue, its handler has not been called and its entry is as it was.
\<close>

theorem late_write_aborts_drain:
  "fst (run_on_fusion_thread ''A'' (returning (JInt 1)) (JDict []) [] idle) = Inr TIMEOUT_RESULT
   \<and> fst (drain render_exc
            (submit_begin ''B'' (returning (JInt 2)) (JDict [])
               (snd (snd (run_on_fusion_thread ''A'' (returning (JInt 1)) (JDict []) [] idle)))))
       = Some (KeyError ''A'')
   \<and> executed (notify render_exc
        (submit_begin ''B'' (returning (JInt 2)) (JDict [])
           (snd (snd (run_on_fusion_thread ''A'' (returning (JInt 1)) (JDict []) [] idle)))))
       = [''A'']
   \<and> map fst (task_queue (notify render_exc
        (submit_begin ''B'' (returning (JInt 2)) (JDict [])
           (snd (snd (run_on_fusion_thread ''A'' (returning (JInt 1)) (JDict []) [] idle))))))
       = [''B'']
   \<and> task_results (notify render_exc
        (submit_begin ''B'' (returning (JInt 2)) (JDict [])
           (snd (snd (run_on_fusion_thread ''A'' (returning (JInt 1)) (JDict []) [] idle))))) ''B''
       = Some \<lparr>event = False, result = JNull\<rparr>
   \<and> length (message_boxes (notify render_exc
        (submit_begin ''B'' (returning (JInt 2)) (JDict [])
           (snd (snd (run_on_fusion_thread ''A'' (returning (JInt 1)) (JDict []) [] idle))))))
       = 1"
proof -
  let ?s1 = "submit_begin ''A'' (returning (JInt 1)) (JDict []) idle"
  let ?sA = "?s1\<lparr>task_results := (task_results ?s1)(''A'' := None)\<rparr>"
  let ?sB = "submit_begin ''B'' (returning (JInt 2)) (JDict []) ?sA"
  have runA: "run_on_fusion_thread ''A'' (returning (JInt 1)) (JDict []) [] idle
                = (Inr TIMEOUT_RESULT, 30, ?sA)"
    by (rule run_without_host)
  have q: "task_queue ?sB = (''A'', returning (JInt 1), JDict []) # [(''B'', returning (JInt 2), JDict [])]"
    by (simp add: submit_begin_simps idle_def)
  have gone: "task_results ?sB ''A'' = None"
    by (simp add: submit_begin_simps)
  have d: "drain render_exc ?sB =
             (Some (KeyError ''A''),
              ?sB\<lparr>task_queue := [(''B'', returning (JInt 2), JDict [])],
                   host := snd (returning (JInt 1) (JDict []) (host ?sB)),
                   executed := executed ?sB @ [''A'']\<rparr>)"
    by (rule drain_Cons_absent [OF q gone])
  have ui: "ui ?sB" by (simp add: submit_begin_def idle_def Let_def)
  have n: "notify render_exc ?sB =
             ?sB\<lparr>task_queue := [(''B'', returning (JInt 2), JDict [])],
                  host := snd (returning (JInt 1) (JDict []) (host ?sB)),
                  executed := executed ?sB @ [''A''],
                  message_boxes := message_boxes ?sB @
                     [''FusionBridge custom event error:'' @ [CHR 0x0A] @ render_exc (KeyError ''A'')]\<rparr>"
    using ui by (simp add: notify_def d)
  show ?thesis
    unfolding runA
    by (simp only: n d fst_conv snd_conv)
       (simp add: submit_begin_simps idle_def submit_begin_def Let_def)
qed

text \<open>
  C3 at the failing input. Three tasks are queued before one notification and the first
  submitter has timed out and removed its entry. The notification calls the first
  handler only: two tasks are left in the queue.
\<close>

theorem drain_stops_at_removed_entry:
  "map fst (task_queue (notify render_exc
      (snd (submit_end ''A''
         (submit_begin ''C'' (returning (JInt 3)) (JDict [])
            (submit_begin ''B'' (returning (JInt 2)) (JDict [])
               (submit_begin ''A'' (returning (JInt 1)) (JDict []) idle)))))))
     = [''B'', ''C'']
   \<and> executed (notify render_exc
      (snd (submit_end ''A''
         (submit_begin ''C'' (returning (JInt 3)) (JDict [])
            (submit_begin ''B'' (returning (JInt 2)) (JDict [])
               (submit_begin ''A'' (returning (JInt 1)) (JDict []) idle))))))
     = [''A'']"
proof -
  let ?s3 = "submit_begin ''C'' (returning (JInt 3)) (JDict [])
            (submit_begin ''B'' (returning (JInt 2)) (JDict [])
               (submit_begin ''A'' (returning (JInt 1)) (JDict []) idle))"
  let ?s = "snd (submit_end ''A'' ?s3)"
  have e: "?s = ?s3\<lparr>task_results := (task_results ?s3)(''A'' := None)\<rparr>"
    by (simp add: submit_end_def submit_begin_simps Let_def)
  have q: "task_queue ?s = (''A'', returning (JInt 1), JDict []) #
             [(''B'', returning (JInt 2), JDict []), (''C'', returning (JInt 3), JDict [])]"
    unfolding e by (simp add: submit_begin_simps idle_def)
  have gone: "task_results ?s ''A'' = None"
    unfolding e by simp
  have ex: "executed ?s = []"
    unfolding e by (simp add: submit_begin_simps idle_def)
  have d: "drain render_exc ?s =
             (Some (KeyError ''A''),
              ?s\<lparr>task_queue := [(''B'', returning (JInt 2), JDict []), (''C'', returning (JInt 3), JDict [])],
                  host := snd (returning (JInt 1) (JDict []) (host ?s)),
                  executed := executed ?s @ [''A'']\<rparr>)"
    by (rule drain_Cons_absent [OF q gone])
  show ?thesis
    by (simp add: notify_def d ex)
qed

section \<open>Claims about the request listener\<close>

lemma map_of_tabulate:
  "map_of (map (\<lambda>k. (k, f k)) ks) x = (if x \<in> set ks then Some (f x) else None)"
  by (induction ks) auto

lemma TOOL_MAP_lookup:
  "map_of (TOOL_MAP impl) name = (if name \<in> set TOOL_MAP_keys then Some (impl name) else None)"
  unfolding TOOL_MAP_def by (rule map_of_tabulate)









text \<open>
  C8. An authenticated \<open>POST /tool\<close> whose body is a JSON object with a string under
  \<open>tool\<close>. When the name is not a key of \<open>_TOOL_MAP\<close>, the response has status 200, is
  \<open>ok: False\<close> and lists every key of \<open>_TOOL_MAP\<close> under \<open>available\<close>, and the bridge is left
  as it is: nothing is queued and no event is fired. When the name is a key, its handler
  and the arguments go through \<open>_run_on_fusion_thread\<close> and the outcome is the body of the
  response, with status 200 whatever its \<open>ok\<close>.
\<close>

theorem post_tool_dispatch:
  assumes auth: "auth_ok req"
      and route: "path req = ''/tool''"
      and len: "content_length req = Inr len"
      and raw: "(if len > 0 then rfile req len else Inr ''{}'') = Inr raw"
      and body: "json_loads L raw = Inr (JDict kvs)"
      and tool: "map_of kvs ''tool'' = Some (JStr name)"
  shows "(name \<notin> set TOOL_MAP_keys \<longrightarrow>
            do_POST L impl task_id sched req s
              = (Inr (Json_response 200
                   (JDict [(''ok'', JBool False),
                           (''error'', JStr (''Unknown tool '' @ repr_str name @ ''.'')),
                           (''available'', JList (map JStr TOOL_MAP_keys))])), s))
       \<and> (name \<in> set TOOL_MAP_keys \<longrightarrow>
            run_on_fusion_thread task_id (impl name)
               (case map_of kvs ''args'' of
                  None \<Rightarrow> JDict []
                | Some a \<Rightarrow> if truthy a then a else JDict []) sched s = (Inr res, waited, s') \<longrightarrow>
            do_POST L impl task_id sched req s = (Inr (Json_response 200 res), s'))"
proof -
  have get_tool: "dict_get (JDict kvs) ''tool'' JNull = Inr (JStr name)"
    using tool by (simp add: dict_get_def)
  have get_args: "dict_get (JDict kvs) ''args'' (JDict []) =
                    Inr (case map_of kvs ''args'' of None \<Rightarrow> JDict [] | Some a \<Rightarrow> a)"
    by (simp add: dict_get_def)
  have args: "(if truthy (case map_of kvs ''args'' of None \<Rightarrow> JDict [] | Some a \<Rightarrow> a)
               then (case map_of kvs ''args'' of None \<Rightarrow> JDict [] | Some a \<Rightarrow> a) else JDict [])
              = (case map_of kvs ''args'' of None \<Rightarrow> JDict [] | Some a \<Rightarrow> if truthy a then a else JDict [])"
    by (simp split: option.splits)
  have look: "lookup_key (JStr name) (TOOL_MAP impl) =
                Inr (if name \<in> set TOOL_MAP_keys then Some (impl name) else None)"
    by (simp add: lookup_key_def TOOL_MAP_lookup)
  have post: "do_POST L impl task_id sched req s =
                (case dispatch_tool L impl task_id sched (JDict kvs) s of
                   (Inl e, s') \<Rightarrow> (Inl e, s')
                 | (Inr res, s') \<Rightarrow> (Inr (Json_response 200 res), s'))"
    using auth route len raw body by (simp add: do_POST_def)
  show ?thesis
  proof (intro conjI impI)
    assume "name \<notin> set TOOL_MAP_keys"
    then have "dispatch_tool L impl task_id sched (JDict kvs) s = (Inr (unknown_tool L (JStr name)), s)"
      by (simp add: dispatch_tool_def get_tool get_args look Let_def)
    then show "do_POST L impl task_id sched req s
              = (Inr (Json_response 200
                   (JDict [(''ok'', JBool False),
                           (''error'', JStr (''Unknown tool '' @ repr_str name @ ''.'')),
                           (''available'', JList (map JStr TOOL_MAP_keys))])), s)"
      by (simp add: post unknown_tool_def py_str_def)
  next
    assume "name \<in> set TOOL_MAP_keys"
       and run: "run_on_fusion_thread task_id (impl name)
               (case map_of kvs ''args'' of
                  None \<Rightarrow> JDict []
                | Some a \<Rightarrow> if truthy a then a else JDict []) sched s = (Inr res, waited, s')"
    then have "dispatch_tool L impl task_id sched (JDict kvs) s = (Inr res, s')"
      by (simp add: dispatch_tool_def get_tool get_args look Let_def args)
    then show "do_POST L impl task_id sched req s = (Inr (Json_response 200 res), s')"
      by (simp add: post)
  qed
qed

theorem post_tool_dispatch_witness:
  \<open>do_POST reference_lib (\<lambda>k. returning (JStr k)) ''A'' [(1, notify render_exc)]
      \<lparr>command = ''POST'', path = ''/tool'', x_token = Some AUTH_TOKEN,
       content_length = Inr 22, rfile = (\<lambda>n. Inr ''{"tool":"nonexistent"}'')\<rparr> idle
    = (Inr (Json_response 200
         (JDict [(''ok'', JBool False),
                 (''error'', JStr (''Unknown tool '' @ repr_str ''nonexistent'' @ ''.'')),
                 (''available'', JList (map JStr TOOL_MAP_keys))])), idle)
   \<and> fst (do_POST reference_lib (\<lambda>k. returning (JStr k)) ''A'' [(1, notify render_exc)]
      \<lparr>command = ''POST'', path = ''/tool'', x_token = Some AUTH_TOKEN,
       content_length = Inr 15, rfile = (\<lambda>n. Inr ''{"tool":"ping"}'')\<rparr> idle)
    = Inr (Json_response 200 (ok_result (JStr ''ping'')))\<close>
proof -
  let ?impl = "\<lambda>k. returning (JStr k) :: unit handler"
  let ?sched = "[(1, notify render_exc)] :: (real \<times> (unit bridge \<Rightarrow> unit bridge)) list"
  let ?req1 = \<open>\<lparr>command = ''POST'', path = ''/tool'', x_token = Some AUTH_TOKEN,
       content_length = Inr 22, rfile = (\<lambda>n. Inr ''{"tool":"nonexistent"}'')\<rparr>\<close>
  let ?req2 = \<open>\<lparr>command = ''POST'', path = ''/tool'', x_token = Some AUTH_TOKEN,
       content_length = Inr 15, rfile = (\<lambda>n. Inr ''{"tool":"ping"}'')\<rparr>\<close>
  have l1: \<open>loads ''{"tool":"nonexistent"}'' = Inr (JDict [(''tool'', JStr ''nonexistent'')])\<close>
    by code_simp
  have l2: \<open>loads ''{"tool":"ping"}'' = Inr (JDict [(''tool'', JStr ''ping'')])\<close>
    by code_simp
  have b1: \<open>json_loads reference_lib ''{"tool":"nonexistent"}'' = Inr (JDict [(''tool'', JStr ''nonexistent'')])\<close>
    by (simp add: reference_lib_def l1)
  have b2: \<open>json_loads reference_lib ''{"tool":"ping"}'' = Inr (JDict [(''tool'', JStr ''ping'')])\<close>
    by (simp add: reference_lib_def l2)
  have r1: \<open>(if (22::int) > 0 then rfile ?req1 22 else Inr ''{}'') = Inr ''{"tool":"nonexistent"}''\<close>
    by simp
  have r2: \<open>(if (15::int) > 0 then rfile ?req2 15 else Inr ''{}'') = Inr ''{"tool":"ping"}''\<close>
    by simp
  have unknown: "''nonexistent'' \<notin> set TOOL_MAP_keys" by (simp add: TOOL_MAP_keys_def)
  have known: "''ping'' \<in> set TOOL_MAP_keys" by (simp add: TOOL_MAP_keys_def)
  have in_time: "(1::real) \<le> WAIT_TIMEOUT" by (simp add: WAIT_TIMEOUT_def)
  have run: "run_on_fusion_thread ''A'' (?impl ''ping'')
               (case map_of [(''tool'', JStr ''ping'')] ''args'' of
                  None \<Rightarrow> JDict []
                | Some a \<Rightarrow> if truthy a then a else JDict []) ?sched idle
             = (Inr (ok_result (JStr ''ping'')), 1,
                (notify render_exc (submit_begin ''A'' (?impl ''ping'') (JDict []) idle))
                  \<lparr>task_results := (task_results (notify render_exc
                        (submit_begin ''A'' (?impl ''ping'') (JDict []) idle)))(''A'' := None)\<rparr>)"
    using run_result_in_time [of idle "''A''" 1 "?impl ''ping''" "JDict []" render_exc] in_time
    by (simp add: idle_def outcome_json_def returning_def run_handlers_def)
  have first: "do_POST reference_lib ?impl ''A'' ?sched ?req1 idle
    = (Inr (Json_response 200
         (JDict [(''ok'', JBool False),
                 (''error'', JStr (''Unknown tool '' @ repr_str ''nonexistent'' @ ''.'')),
                 (''available'', JList (map JStr TOOL_MAP_keys))])), idle)"
    using post_tool_dispatch [where req = ?req1 and len = 22 and L = reference_lib
            and kvs = "[(''tool'', JStr ''nonexistent'')]" and name = "''nonexistent''"
            and impl = ?impl and task_id = "''A''" and sched = ?sched and s = idle, OF _ _ _ r1 b1]
          unknown
    by (simp add: auth_ok_def)
  have second: "do_POST reference_lib ?impl ''A'' ?sched ?req2 idle
    = (Inr (Json_response 200 (ok_result (JStr ''ping''))),
       (notify render_exc (submit_begin ''A'' (?impl ''ping'') (JDict []) idle))
                  \<lparr>task_results := (task_results (notify render_exc
                        (submit_begin ''A'' (?impl ''ping'') (JDict []) idle)))(''A'' := None)\<rparr>)"
    using post_tool_dispatch [where req = ?req2 and len = 15 and L = reference_lib
            and kvs = "[(''tool'', JStr ''ping'')]" and name = "''ping''"
            and impl = ?impl and task_id = "''A''" and sched = ?sched and s = idle, OF _ _ _ r2 b2]
          known run
    by (simp add: auth_ok_def)
  show ?thesis
    using first second by simp
qed

section \<open>Claims about the agent loop\<close>

lemma TOOL_ROUTER_no_empty_name: "map_of TOOL_ROUTER [] = None"
  by (simp add: TOOL_ROUTER_def)

lemma args_or_empty:
  "(if truthy (if truthy a then a else JDict []) then (if truthy a then a else JDict []) else JDict [])
     = (if truthy a then a else JDict [])"
  by simp

text \<open>What \<open>act\<close> does with a dictionary whose \<open>action\<close> is \<open>"tool"\<close>.\<close>

lemma act_tool:
  assumes "map_of kvs ''action'' = Some (JStr ''tool'')"
  shows "act L E (JDict kvs) a =
           (let tool_name = (case map_of kvs ''tool_name'' of None \<Rightarrow> JNull | Some v \<Rightarrow> v);
                args = (case map_of kvs ''args'' of
                          None \<Rightarrow> JDict []
                        | Some v \<Rightarrow> if truthy v then v else JDict [])
            in if \<not> truthy tool_name
               then (Inr (Some (JStr (''Missing tool_name in: '' @ str_of L (JDict kvs)))), a)
               else tool_step L E tool_name args a)"
  using assms by (simp add: act_def dict_get_def Let_def split: option.splits)

lemma execute_tool_known:
  assumes "map_of TOOL_ROUTER name = Some (verb, target)"
  shows "execute_tool L E (JStr name) args a =
           (if verb = ''GET'' then fusion_get E target a else fusion_tool E target args a)"
  using assms by (simp add: execute_tool_def lookup_key_def)

lemma execute_tool_unknown:
  assumes "map_of TOOL_ROUTER name = None"
  shows "execute_tool L E (JStr name) args a =
           (Inr (JDict [(''ok'', JBool False), (''error'', JStr (''Tool not allowed: '' @ name))]), a)"
  using assms by (simp add: execute_tool_def lookup_key_def tool_not_allowed_def py_str_def)

lemma fusion_get_counts:
  "requests (snd (fusion_get E p a)) = requests a @ [GET p]
   \<and> model_calls (snd (fusion_get E p a)) = model_calls a
   \<and> dispatched (snd (fusion_get E p a)) = dispatched a
   \<and> messages (snd (fusion_get E p a)) = messages a"
  by (simp add: fusion_get_def split: prod.splits)

lemma fusion_tool_counts:
  "requests (snd (fusion_tool E tool args a)) =
     requests a @ [POST ''/tool'' (JDict [(''tool'', JStr tool),
                                          (''args'', if truthy args then args else JDict [])])]
   \<and> model_calls (snd (fusion_tool E tool args a)) = model_calls a
   \<and> dispatched (snd (fusion_tool E tool args a)) = dispatched a
   \<and> messages (snd (fusion_tool E tool args a)) = messages a"
  by (simp add: fusion_tool_def Let_def split: prod.splits)

lemma tool_step_continues:
  "fst (tool_step L E tool_name args a) = Inr None
   \<and> model_calls (snd (tool_step L E tool_name args a)) =
       model_calls (snd (execute_tool L E tool_name args (a\<lparr>dispatched := dispatched a @ [(tool_name, args)]\<rparr>)))
   \<and> dispatched (snd (tool_step L E tool_name args a)) =
       dispatched (snd (execute_tool L E tool_name args (a\<lparr>dispatched := dispatched a @ [(tool_name, args)]\<rparr>)))
   \<and> requests (snd (tool_step L E tool_name args a)) =
       requests (snd (execute_tool L E tool_name args (a\<lparr>dispatched := dispatched a @ [(tool_name, args)]\<rparr>)))"
  by (simp add: tool_step_def Let_def split: prod.splits)






text \<open>
  C9, as the code has it. The action is a dictionary whose \<open>action\<close> is \<open>"tool"\<close>. A
  \<open>tool_name\<close> that is missing or false (\<open>None\<close>, the empty string) ends the run with the
  message \<open>Missing tool_name in: ...\<close>. A non-empty name that is not a key of
  \<open>TOOL_ROUTER\<close> sends no request: the outcome
  \<open>{"ok": False, "error": "Tool not allowed: <name>"}\<close> is made on the spot and appended
  to the conversation as a \<open>tool_result\<close>, and the loop goes on. A name that is a key
  sends the \<open>GET\<close> of its path, or the \<open>POST\<close> of its tool and the arguments to \<open>/tool\<close>.
\<close>

theorem tool_name_dispatch:
  assumes action: "map_of kvs ''action'' = Some (JStr ''tool'')"
      and args: "args = (case map_of kvs ''args'' of
                           None \<Rightarrow> JDict []
                         | Some v \<Rightarrow> if truthy v then v else JDict [])"
  shows "((case map_of kvs ''tool_name'' of None \<Rightarrow> True | Some v \<Rightarrow> \<not> truthy v) \<longrightarrow>
            act L E (JDict kvs) a
              = (Inr (Some (JStr (''Missing tool_name in: '' @ str_of L (JDict kvs)))), a))
       \<and> (map_of kvs ''tool_name'' = Some (JStr name) \<and> name \<noteq> [] \<and> map_of TOOL_ROUTER name = None \<longrightarrow>
            act L E (JDict kvs) a
              = (Inr None,
                 a\<lparr>dispatched := dispatched a @ [(JStr name, args)],
                   messages := messages a @
                     [\<lparr>role = ''user'',
                       content = json_dumps_indent L
                         (tool_result (JStr name) args
                            (JDict [(''ok'', JBool False),
                                    (''error'', JStr (''Tool not allowed: '' @ name))]))\<rparr>]\<rparr>))
       \<and> (map_of kvs ''tool_name'' = Some (JStr name) \<and> map_of TOOL_ROUTER name = Some (''GET'', target) \<longrightarrow>
            fst (act L E (JDict kvs) a) = Inr None
            \<and> requests (snd (act L E (JDict kvs) a)) = requests a @ [GET target])
       \<and> (map_of kvs ''tool_name'' = Some (JStr name) \<and> map_of TOOL_ROUTER name = Some (''POST'', target) \<longrightarrow>
            fst (act L E (JDict kvs) a) = Inr None
            \<and> requests (snd (act L E (JDict kvs) a))
                = requests a @ [POST ''/tool'' (JDict [(''tool'', JStr target), (''args'', args)])])"
proof -
  have missing: "(case map_of kvs ''tool_name'' of None \<Rightarrow> True | Some v \<Rightarrow> \<not> truthy v) \<longrightarrow>
            act L E (JDict kvs) a
              = (Inr (Some (JStr (''Missing tool_name in: '' @ str_of L (JDict kvs)))), a)"
    by (simp add: act_tool [OF action] Let_def split: option.splits)
  have unknown: "map_of kvs ''tool_name'' = Some (JStr name) \<and> name \<noteq> [] \<and> map_of TOOL_ROUTER name = None \<longrightarrow>
            act L E (JDict kvs) a
              = (Inr None,
                 a\<lparr>dispatched := dispatched a @ [(JStr name, args)],
                   messages := messages a @
                     [\<lparr>role = ''user'',
                       content = json_dumps_indent L
                         (tool_result (JStr name) args
                            (JDict [(''ok'', JBool False),
                                    (''error'', JStr (''Tool not allowed: '' @ name))]))\<rparr>]\<rparr>)"
  proof
    assume h: "map_of kvs ''tool_name'' = Some (JStr name) \<and> name \<noteq> [] \<and> map_of TOOL_ROUTER name = None"
    then have "act L E (JDict kvs) a = tool_step L E (JStr name) args a"
      by (simp add: act_tool [OF action] Let_def args)
    then show "act L E (JDict kvs) a
              = (Inr None,
                 a\<lparr>dispatched := dispatched a @ [(JStr name, args)],
                   messages := messages a @
                     [\<lparr>role = ''user'',
                       content = json_dumps_indent L
                         (tool_result (JStr name) args
                            (JDict [(''ok'', JBool False),
                                    (''error'', JStr (''Tool not allowed: '' @ name))]))\<rparr>]\<rparr>)"
      using h by (simp add: tool_step_def execute_tool_unknown Let_def)
  qed
  have get: "map_of kvs ''tool_name'' = Some (JStr name) \<and> map_of TOOL_ROUTER name = Some (''GET'', target) \<longrightarrow>
            fst (act L E (JDict kvs) a) = Inr None
            \<and> requests (snd (act L E (JDict kvs) a)) = requests a @ [GET target]"
  proof
    assume h: "map_of kvs ''tool_name'' = Some (JStr name) \<and> map_of TOOL_ROUTER name = Some (''GET'', target)"
    then have ne: "name \<noteq> []" using TOOL_ROUTER_no_empty_name by auto
    have e: "act L E (JDict kvs) a = tool_step L E (JStr name) args a"
      using h ne by (simp add: act_tool [OF action] Let_def args)
    from h have k: "map_of TOOL_ROUTER name = Some (''GET'', target)" by simp
    show "fst (act L E (JDict kvs) a) = Inr None
            \<and> requests (snd (act L E (JDict kvs) a)) = requests a @ [GET target]"
      unfolding e
      using tool_step_continues [of L E "JStr name" args a]
            fusion_get_counts [of E target "a\<lparr>dispatched := dispatched a @ [(JStr name, args)]\<rparr>"]
      by (simp add: execute_tool_known [OF k])
  qed
  have post: "map_of kvs ''tool_name'' = Some (JStr name) \<and> map_of TOOL_ROUTER name = Some (''POST'', target) \<longrightarrow>
            fst (act L E (JDict kvs) a) = Inr None
            \<and> requests (snd (act L E (JDict kvs) a))
                = requests a @ [POST ''/tool'' (JDict [(''tool'', JStr target), (''args'', args)])]"
  proof
    assume h: "map_of kvs ''tool_name'' = Some (JStr name) \<and> map_of TOOL_ROUTER name = Some (''POST'', target)"
    then have ne: "name \<noteq> []" using TOOL_ROUTER_no_empty_name by auto
    have e: "act L E (JDict kvs) a = tool_step L E (JStr name) args a"
      using h ne by (simp add: act_tool [OF action] Let_def args)
    from h have k: "map_of TOOL_ROUTER name = Some (''POST'', target)" by simp
    have t: "(if truthy args then args else JDict []) = args"
      unfolding args by (simp split: option.splits)
    show "fst (act L E (JDict kvs) a) = Inr None
            \<and> requests (snd (act L E (JDict kvs) a))
                = requests a @ [POST ''/tool'' (JDict [(''tool'', JStr target), (''args'', args)])]"
      unfolding e
      using tool_step_continues [of L E "JStr name" args a]
            fusion_tool_counts [of E target args "a\<lparr>dispatched := dispatched a @ [(JStr name, args)]\<rparr>"]
      by (simp add: execute_tool_known [OF k] t)
  qed
  show ?thesis
    using missing unknown get post by (intro conjI)
qed

theorem tool_name_dispatch_witness:
  "act reference_lib (constant_model [])
     (JDict [(''action'', JStr ''tool''), (''tool_name'', JStr ''fusion_teleport''), (''args'', JDict [])])
     fresh_agent
   = (Inr None,
      fresh_agent\<lparr>dispatched := dispatched fresh_agent @ [(JStr ''fusion_teleport'', JDict [])],
        messages := messages fresh_agent @
          [\<lparr>role = ''user'',
            content = json_dumps_indent reference_lib
              (tool_result (JStr ''fusion_teleport'') (JDict [])
                 (JDict [(''ok'', JBool False),
                         (''error'', JStr (''Tool not allowed: '' @ ''fusion_teleport''))]))\<rparr>]\<rparr>)
   \<and> requests (snd (act reference_lib (constant_model [])
        (JDict [(''action'', JStr ''tool''), (''tool_name'', JStr ''fusion_ping'')]) fresh_agent))
     = [GET ''/ping'']
   \<and> requests (snd (act reference_lib (constant_model [])
        (JDict [(''action'', JStr ''tool''), (''tool_name'', JStr ''fusion_list_bodies'')]) fresh_agent))
     = [POST ''/tool'' (JDict [(''tool'', JStr ''list_bodies''), (''args'', JDict [])])]
   \<and> fst (act reference_lib (constant_model [])
        (JDict [(''action'', JStr ''tool''), (''tool_name'', JNull)]) fresh_agent)
     = Inr (Some (JStr (''Missing tool_name in: '' @
              str_of reference_lib (JDict [(''action'', JStr ''tool''), (''tool_name'', JNull)]))))"
proof -
  let ?E = "constant_model []"
  let ?k1 = "[(''action'', JStr ''tool''), (''tool_name'', JStr ''fusion_teleport''), (''args'', JDict [])]"
  let ?k2 = "[(''action'', JStr ''tool''), (''tool_name'', JStr ''fusion_ping'')]"
  let ?k3 = "[(''action'', JStr ''tool''), (''tool_name'', JStr ''fusion_list_bodies'')]"
  let ?k4 = "[(''action'', JStr ''tool''), (''tool_name'', JNull)]"
  have r1: "map_of TOOL_ROUTER ''fusion_teleport'' = None" by (simp add: TOOL_ROUTER_def)
  have r2: "map_of TOOL_ROUTER ''fusion_ping'' = Some (''GET'', ''/ping'')"
    by (simp add: TOOL_ROUTER_def)
  have r3: "map_of TOOL_ROUTER ''fusion_list_bodies'' = Some (''POST'', ''list_bodies'')"
    by (simp add: TOOL_ROUTER_def)
  have w1: "act reference_lib ?E (JDict ?k1) fresh_agent
   = (Inr None,
      fresh_agent\<lparr>dispatched := dispatched fresh_agent @ [(JStr ''fusion_teleport'', JDict [])],
        messages := messages fresh_agent @
          [\<lparr>role = ''user'',
            content = json_dumps_indent reference_lib
              (tool_result (JStr ''fusion_teleport'') (JDict [])
                 (JDict [(''ok'', JBool False),
                         (''error'', JStr (''Tool not allowed: '' @ ''fusion_teleport''))]))\<rparr>]\<rparr>)"
    using tool_name_dispatch [where kvs = ?k1 and args = "JDict []" and name = "''fusion_teleport''"
            and L = reference_lib and E = ?E and a = fresh_agent] r1
    by simp
  have w2: "requests (snd (act reference_lib ?E (JDict ?k2) fresh_agent)) = [GET ''/ping'']"
    using tool_name_dispatch [where kvs = ?k2 and args = "JDict []" and name = "''fusion_ping''"
            and target = "''/ping''" and L = reference_lib and E = ?E and a = fresh_agent] r2
    by (simp add: fresh_agent_def)
  have w3: "requests (snd (act reference_lib ?E (JDict ?k3) fresh_agent))
              = [POST ''/tool'' (JDict [(''tool'', JStr ''list_bodies''), (''args'', JDict [])])]"
    using tool_name_dispatch [where kvs = ?k3 and args = "JDict []" and name = "''fusion_list_bodies''"
            and target = "''list_bodies''" and L = reference_lib and E = ?E and a = fresh_agent] r3
    by (simp add: fresh_agent_def)
  have w4: "fst (act reference_lib ?E (JDict ?k4) fresh_agent)
     = Inr (Some (JStr (''Missing tool_name in: '' @ str_of reference_lib (JDict ?k4))))"
    using tool_name_dispatch [where kvs = ?k4 and args = "JDict []"
            and L = reference_lib and E = ?E and a = fresh_agent]
    by simp
  show ?thesis
    using w1 w2 w3 w4 by (intro conjI)
qed

text \<open>
  C9 as stated fails for an empty name: the tool action names the tool \<open>""\<close>, which is
  not a key of \<open>TOOL_ROUTER\<close>. The run ends at once with the message
  \<open>Missing tool_name in: ...\<close>; no outcome is made, \<open>_execute_tool\<close> is not called and
  nothing but the model's answer is appended to the conversation.
\<close>

theorem empty_tool_name_counterexample:
  \<open>map_of TOOL_ROUTER [] = None
   \<and> fst (agent_turn reference_lib
          (constant_model ''{"action":"tool","tool_name":"","args":{}}'') ''hi'' fresh_agent)
     = Inr (JStr (''Missing tool_name in: '' @
              render (JDict [(''action'', JStr ''tool''), (''tool_name'', JStr []),
                             (''args'', JDict [])])))
   \<and> dispatched (snd (agent_turn reference_lib
          (constant_model ''{"action":"tool","tool_name":"","args":{}}'') ''hi'' fresh_agent)) = []
   \<and> requests (snd (agent_turn reference_lib
          (constant_model ''{"action":"tool","tool_name":"","args":{}}'') ''hi'' fresh_agent)) = []
   \<and> map role (messages (snd (agent_turn reference_lib
          (constant_model ''{"action":"tool","tool_name":"","args":{}}'') ''hi'' fresh_agent)))
     = [''user'', ''assistant'']\<close>
  by code_simp

text \<open>A pass of the loop in which the model emits a final action.\<close>

lemma agent_cycle_final:
  assumes out: "complete E (messages a) (world a) = (Inr output_text, w)"
      and parse: "parse_json_only L (strip (case output_text of None \<Rightarrow> [] | Some t \<Rightarrow> t)) = Inr (JDict kvs)"
      and final: "map_of kvs ''action'' = Some (JStr ''final'')"
  shows "agent_cycle L E a =
           (Inr (Some (case map_of kvs ''message'' of None \<Rightarrow> JStr [] | Some m \<Rightarrow> m)),
            a\<lparr>world := w, model_calls := Suc (model_calls a),
              messages := messages a @ [\<lparr>role = ''assistant'', content = json_dumps L (JDict kvs)\<rparr>]\<rparr>)"
  using assms by (simp add: agent_cycle_def act_def dict_get_def Let_def)

text \<open>A pass of the loop in which the model's text does not parse.\<close>

lemma agent_cycle_invalid:
  assumes out: "complete E (messages a) (world a) = (Inr output_text, w)"
      and parse: "parse_json_only L (strip (case output_text of None \<Rightarrow> [] | Some t \<Rightarrow> t)) = Inl e"
  shows "agent_cycle L E a =
           (Inr (Some (JStr (invalid_json_message
                               (strip (case output_text of None \<Rightarrow> [] | Some t \<Rightarrow> t)) e))),
            a\<lparr>world := w, model_calls := Suc (model_calls a),
              messages := messages a @
                [\<lparr>role = ''assistant'',
                  content = strip (case output_text of None \<Rightarrow> [] | Some t \<Rightarrow> t)\<rparr>]\<rparr>)"
  using assms by (simp add: agent_cycle_def Let_def)

lemma agent_loop_returns:
  assumes "fst (agent_cycle L E a) = Inr (Some r)"
  shows "fst (agent_loop L E (Suc n) a) = Inr r"
  using assms by (cases "agent_cycle L E a") simp

lemma parse_sure_ok:
  \<open>parse_json_only reference_lib (strip ''Sure! {"action":"final","message":"ok"} thanks'')
     = Inr (JDict [(''action'', JStr ''final''), (''message'', JStr ''ok'')])\<close>
  by code_simp

lemma sure_ok_run:
  \<open>fst (agent_turn reference_lib
          (constant_model ''Sure! {"action":"final","message":"ok"} thanks'') user_text fresh_agent)
     = Inr (JStr ''ok'')\<close>
proof -
  let ?E = \<open>constant_model ''Sure! {"action":"final","message":"ok"} thanks''\<close>
  let ?a = "fresh_agent\<lparr>messages := messages fresh_agent @ [\<lparr>role = ''user'', content = user_text\<rparr>]\<rparr>"
  have out: \<open>complete ?E (messages ?a) (world ?a)
               = (Inr (Some ''Sure! {"action":"final","message":"ok"} thanks''), world ?a)\<close>
    by (simp add: constant_model_def)
  have parse: \<open>parse_json_only reference_lib
        (strip (case Some ''Sure! {"action":"final","message":"ok"} thanks'' of None \<Rightarrow> [] | Some t \<Rightarrow> t))
      = Inr (JDict [(''action'', JStr ''final''), (''message'', JStr ''ok'')])\<close>
    using parse_sure_ok by simp
  have final: "map_of [(''action'', JStr ''final''), (''message'', JStr ''ok'')] ''action''
                 = Some (JStr ''final'')"
    by simp
  have "fst (agent_cycle reference_lib ?E ?a) = Inr (Some (JStr ''ok''))"
    by (simp add: agent_cycle_final [OF out parse final])
  then have "fst (agent_loop reference_lib ?E (Suc 11) ?a) = Inr (JStr ''ok'')"
    by (rule agent_loop_returns)
  then show ?thesis
    by (simp add: agent_turn_def)
qed

text \<open>
  What \<open>_parse_json_only\<close> hands to \<open>json.loads\<close>: the substring from the first \<open>{\<close> to the
  last \<open>}\<close> when the stripped text does not begin with \<open>{\<close> and has such a pair of braces,
  and the stripped text otherwise.
\<close>

lemma parse_json_only_extracts:
  \<open>\<not> startswith (strip raw_text) ''{'' \<Longrightarrow>
   find CHR ''{'' (strip raw_text) \<noteq> - 1 \<Longrightarrow> rfind CHR ''}'' (strip raw_text) \<noteq> - 1 \<Longrightarrow>
   rfind CHR ''}'' (strip raw_text) > find CHR ''{'' (strip raw_text) \<Longrightarrow>
   parse_json_only L raw_text
     = json_loads L (slice (strip raw_text) (find CHR ''{'' (strip raw_text))
                                        (rfind CHR ''}'' (strip raw_text) + 1))\<close>
  by (simp add: parse_json_only_def Let_def)

lemma parse_json_only_whole:
  \<open>startswith (strip raw_text) ''{'' \<Longrightarrow>
   parse_json_only L raw_text = json_loads L (strip raw_text)\<close>
  by (simp add: parse_json_only_def Let_def)

text \<open>
  C6 at the failing input. The model's output is a JSON object followed by prose,
  \<open>{"action":"final","message":"ok"} thanks\<close>. The text is not pure JSON, and its
  substring from the first \<open>{\<close> to the last \<open>}\<close> is the object; but the text begins with
  \<open>{\<close>, so \<open>_parse_json_only\<close> hands it to \<open>json.loads\<close> as it is, for every library, and
  makes no extraction. The run ends with the message about invalid JSON, where the
  recovery that the claim describes gives the final action with the message \<open>"ok"\<close>. The
  same object with prose before it as well is recovered.
\<close>

theorem trailing_text_not_recovered:
  \<open>parse_json_only L ''{"action":"final","message":"ok"} thanks''
     = json_loads L ''{"action":"final","message":"ok"} thanks''
   \<and> slice ''{"action":"final","message":"ok"} thanks''
         (find CHR ''{'' ''{"action":"final","message":"ok"} thanks'')
         (rfind CHR ''}'' ''{"action":"final","message":"ok"} thanks'' + 1)
       = ''{"action":"final","message":"ok"}''
   \<and> isl (json_loads reference_lib ''{"action":"final","message":"ok"} thanks'')
   \<and> parse_with_recovery_spec reference_lib ''{"action":"final","message":"ok"} thanks''
       = Inr (JDict [(''action'', JStr ''final''), (''message'', JStr ''ok'')])
   \<and> fst (agent_turn reference_lib
            (constant_model ''{"action":"final","message":"ok"} thanks'') ''hi'' fresh_agent)
       = Inr (JStr (invalid_json_message ''{"action":"final","message":"ok"} thanks''
                      (projl (json_loads reference_lib
                                ''{"action":"final","message":"ok"} thanks''))))
   \<and> fst (agent_turn reference_lib
            (constant_model ''Sure! {"action":"final","message":"ok"} thanks'') ''hi'' fresh_agent)
       = Inr (JStr ''ok'')\<close>
proof -
  have stripped: \<open>strip ''{"action":"final","message":"ok"} thanks''
                    = ''{"action":"final","message":"ok"} thanks''\<close>
    by code_simp
  have brace: \<open>startswith (strip ''{"action":"final","message":"ok"} thanks'') ''{''\<close>
    by code_simp
  have whole: \<open>parse_json_only L ''{"action":"final","message":"ok"} thanks''
                 = json_loads L ''{"action":"final","message":"ok"} thanks''\<close>
    using parse_json_only_whole [OF brace, of L] by (simp only: stripped)
  have substring: \<open>slice ''{"action":"final","message":"ok"} thanks''
         (find CHR ''{'' ''{"action":"final","message":"ok"} thanks'')
         (rfind CHR ''}'' ''{"action":"final","message":"ok"} thanks'' + 1)
       = ''{"action":"final","message":"ok"}''\<close>
    by code_simp
  have fails: \<open>isl (json_loads reference_lib ''{"action":"final","message":"ok"} thanks'')\<close>
    by code_simp
  have spec: \<open>parse_with_recovery_spec reference_lib ''{"action":"final","message":"ok"} thanks''
       = Inr (JDict [(''action'', JStr ''final''), (''message'', JStr ''ok'')])\<close>
    by code_simp
  have run: \<open>fst (agent_turn reference_lib
            (constant_model ''{"action":"final","message":"ok"} thanks'') ''hi'' fresh_agent)
       = Inr (JStr (invalid_json_message ''{"action":"final","message":"ok"} thanks''
                      (projl (json_loads reference_lib
                                ''{"action":"final","message":"ok"} thanks''))))\<close>
    by code_simp
  show ?thesis
    using whole substring fails spec run sure_ok_run [of "''hi''"] by (intro conjI)
qed

section \<open>The loop of run_agent.py\<close>

text \<open>
  The script's loop differs from \<open>agent_turn\<close> at its ends: with the default bound it
  calls the model 8 times, and it raises \<open>RuntimeError\<close> where \<open>agent_turn\<close> returns a text,
  when the bound is reached and when the tool is not in \<open>ALLOWED_TOOLS\<close>.
\<close>

lemma main_cycle_allowed_tool:
  assumes out: "complete E (messages a) (world a) = (Inr output_text, w)"
      and parse: "extract_json L (strip (case output_text of None \<Rightarrow> [] | Some t \<Rightarrow> t)) = Inr (JDict kvs)"
      and action: "map_of kvs ''action'' = Some (JStr ''tool'')"
      and name: "map_of kvs ''tool_name'' = Some (JStr n)"
      and allowed: "map_of ALLOWED_TOOLS n = Some kind"
  shows "\<exists>a'. main_cycle L E a = (Inr None, a') \<and> model_calls a' = Suc (model_calls a)"
  using assms
  by (auto simp: main_cycle_def main_act_def dict_get_def lookup_key_def Let_def
                 fusion_get_def fusion_tool_def split: prod.splits sum.splits)

lemma main_loop_budget:
  assumes model: "\<And>ms w. \<exists>output_text w' kvs n kind.
             complete E ms w = (Inr output_text, w')
           \<and> extract_json L (strip (case output_text of None \<Rightarrow> [] | Some t \<Rightarrow> t)) = Inr (JDict kvs)
           \<and> map_of kvs ''action'' = Some (JStr ''tool'')
           \<and> map_of kvs ''tool_name'' = Some (JStr n)
           \<and> map_of ALLOWED_TOOLS n = Some kind"
  shows "fst (main_loop L E k a) = Inl (RuntimeError MAX_STEPS_MESSAGE)
       \<and> model_calls (snd (main_loop L E k a)) = model_calls a + k"
proof (induction k arbitrary: a)
  case 0
  show ?case by simp
next
  case (Suc k)
  obtain output_text w' kvs n kind where
      f1: "complete E (messages a) (world a) = (Inr output_text, w')"
  and f2: "extract_json L (strip (case output_text of None \<Rightarrow> [] | Some t \<Rightarrow> t)) = Inr (JDict kvs)"
  and f3: "map_of kvs ''action'' = Some (JStr ''tool'')"
  and f4: "map_of kvs ''tool_name'' = Some (JStr n)"
  and f5: "map_of ALLOWED_TOOLS n = Some kind"
    using model [of "messages a" "world a"] by blast
  obtain a' where a': "main_cycle L E a = (Inr None, a')" "model_calls a' = Suc (model_calls a)"
    using main_cycle_allowed_tool [OF f1 f2 f3 f4 f5] by auto
  show ?case
    using Suc.IH [of a'] a' by simp
qed

lemma extract_fusion_ping:
  \<open>extract_json reference_lib (strip ''{"action":"tool","tool_name":"fusion_ping"}'')
     = Inr (JDict [(''action'', JStr ''tool''), (''tool_name'', JStr ''fusion_ping'')])\<close>
  by code_simp

lemma main_max_steps_example:
  \<open>fst (main reference_lib (constant_model ''{"action":"tool","tool_name":"fusion_ping"}'')
          system_text goal_text DEFAULT_MAX_STEPS ())
     = Inl (RuntimeError ''Max steps reached without finishing.'')
   \<and> model_calls (snd (main reference_lib
          (constant_model ''{"action":"tool","tool_name":"fusion_ping"}'')
          system_text goal_text DEFAULT_MAX_STEPS ())) = 8\<close>
proof -
  have \<open>\<And>ms w. \<exists>output_text w' kvs n kind.
             complete (constant_model ''{"action":"tool","tool_name":"fusion_ping"}'') ms w
               = (Inr output_text, w')
           \<and> extract_json reference_lib (strip (case output_text of None \<Rightarrow> [] | Some t \<Rightarrow> t))
               = Inr (JDict kvs)
           \<and> map_of kvs ''action'' = Some (JStr ''tool'')
           \<and> map_of kvs ''tool_name'' = Some (JStr n)
           \<and> map_of ALLOWED_TOOLS n = Some kind\<close>
    using extract_fusion_ping by (simp add: constant_model_def ALLOWED_TOOLS_def)
  from main_loop_budget [OF this, where k = 8]
  show ?thesis
    by (simp add: main_def DEFAULT_MAX_STEPS_def MAX_STEPS_MESSAGE_def)
qed

lemma main_tool_not_allowed_example:
  \<open>fst (main reference_lib (constant_model ''{"action":"tool","tool_name":"fusion_list_bodies"}'')
          [] [] DEFAULT_MAX_STEPS ())
     = Inl (RuntimeError ''Tool not allowed: fusion_list_bodies'')
   \<and> requests (snd (main reference_lib
          (constant_model ''{"action":"tool","tool_name":"fusion_list_bodies"}'')
          [] [] DEFAULT_MAX_STEPS ())) = []\<close>
  by code_simp

end
